theory Spec2Isabelle
  imports Complex_Main "HOL-Library.Word" "HOL-Library.Sublist"
begin

section \<open>JavaScript text\<close>

text \<open>
  A JavaScript string is a sequence of UTF-16 code units, and \<open>length\<close>, \<open>slice\<close>,
  \<open>startsWith\<close>, \<open>split\<close> and \<open>trim\<close> all count code units. The model keeps that:
  a string is a list of 16-bit words. \<open>utf16\<close> writes an ASCII literal of the source;
  the Chinese literals of the source are given by their code units.
\<close>

type_synonym jstring = "16 word list"

type_synonym bytes = "8 word list"

definition utf16 :: "string \<Rightarrow> jstring" where
  "utf16 s = map (\<lambda>c. of_nat (of_char c)) s"

text \<open>\<open>"\n"\<close>, the separator of \<open>buffer.split("\n")\<close>.\<close>

definition newline :: "16 word" where
  "newline = 0x0A"

text \<open>
  \<open>String.prototype.split\<close> with a one-unit separator: the pieces between the
  separators, so that a text with \<open>n\<close> separators has \<open>n + 1\<close> pieces and the empty
  text has the one piece \<open>""\<close>.
\<close>

fun split_newline :: "jstring \<Rightarrow> jstring list" where
  "split_newline [] = [[]]"
| "split_newline (c # cs) =
     (if c = newline then [] # split_newline cs
      else (case split_newline cs of
              [] \<Rightarrow> [[c]]
            | l # ls \<Rightarrow> (c # l) # ls))"

text \<open>
  \<open>Array.prototype.pop\<close>: the last element (\<open>undefined\<close> on the empty array, here
  \<open>None\<close>) and the array without it.
\<close>

definition pop :: "'a list \<Rightarrow> 'a option \<times> 'a list" where
  "pop xs = (if xs = [] then (None, []) else (Some (last xs), butlast xs))"

text \<open>
  White space and line terminators of ECMAScript, the code units that
  \<open>String.prototype.trim\<close> strips from both ends.
\<close>

definition is_ws :: "16 word \<Rightarrow> bool" where
  "is_ws c = (c = 0x09 \<or> c = 0x0A \<or> c = 0x0B \<or> c = 0x0C \<or> c = 0x0D \<or> c = 0x20
     \<or> c = 0xA0 \<or> c = 0x1680 \<or> (0x2000 \<le> c \<and> c \<le> 0x200A) \<or> c = 0x2028
     \<or> c = 0x2029 \<or> c = 0x202F \<or> c = 0x205F \<or> c = 0x3000 \<or> c = 0xFEFF)"

definition trim :: "jstring \<Rightarrow> jstring" where
  "trim s = rev (dropWhile is_ws (rev (dropWhile is_ws s)))"

text \<open>The literal \<open>"\<dots>"\<close> of the source that reads "unknown error" (U+672A U+77E5 U+9519 U+8BEF).\<close>

definition unknown_error :: jstring where
  "unknown_error = [0x672A, 0x77E5, 0x9519, 0x8BEF]"

text \<open>"sending the message failed" (U+53D1 U+9001 U+6D88 U+606F U+5931 U+8D25).\<close>

definition send_failed :: jstring where
  "send_failed = [0x53D1, 0x9001, 0x6D88, 0x606F, 0x5931, 0x8D25]"

text \<open>"cannot read the response stream" (U+65E0 U+6CD5 U+8BFB U+53D6 U+54CD U+5E94 U+6D41).\<close>

definition cannot_read_stream :: jstring where
  "cannot_read_stream = [0x65E0, 0x6CD5, 0x8BFB, 0x53D6, 0x54CD, 0x5E94, 0x6D41]"

text \<open>"generation failed" followed by a full-width colon (U+751F U+6210 U+5931 U+8D25 U+FF1A).\<close>

definition generation_failed :: jstring where
  "generation_failed = [0x751F, 0x6210, 0x5931, 0x8D25, 0xFF1A]"

text \<open>"error" followed by a full-width colon (U+9519 U+8BEF U+FF1A).\<close>

definition error_colon :: jstring where
  "error_colon = [0x9519, 0x8BEF, 0xFF1A]"

text \<open>"chart" (U+56FE U+8868), the fallback title of a chart.\<close>

definition chart_title_default :: jstring where
  "chart_title_default = [0x56FE, 0x8868]"

text \<open>"there is no chart to export at present", the text of the alert of \<open>exportAllCharts\<close>.\<close>

definition nothing_to_export :: jstring where
  "nothing_to_export =
     [0x5F53, 0x524D, 0x6CA1, 0x6709, 0x53EF, 0x5BFC, 0x51FA, 0x7684, 0x56FE, 0x8868]"


section \<open>JSON values\<close>

text \<open>
  A chart configuration is \<open>Record<string, unknown>\<close>: an object that came out of
  \<open>JSON.parse\<close>. Objects are association lists read by key (\<open>map_of\<close>), a parsed
  object holding each key once; a number is
  the exact value of the double, which is a rational (the infinities that an overflowing
  literal parses to are left out).
\<close>

datatype json =
    JNull
  | JBool bool
  | JNum rat
  | JStr jstring
  | JArr "json list"
  | JObj "(jstring \<times> json) list"

type_synonym obj = "(jstring \<times> json) list"

text \<open>
  Insertion-ordered containers keyed by text, as a JavaScript object and a \<open>Map\<close> are:
  storing under a key that is present replaces the value where it stands, storing under
  a new key appends. Both \<open>obj[k] = v\<close> (and a later member of an object literal) and
  \<open>map.set(k, v)\<close> are this.
\<close>

fun upsert :: "'k \<Rightarrow> 'v \<Rightarrow> ('k \<times> 'v) list \<Rightarrow> ('k \<times> 'v) list" where
  "upsert k v [] = [(k, v)]"
| "upsert k v ((k', v') # kvs) = (if k' = k then (k, v) # kvs else (k', v') # upsert k v kvs)"

definition set_prop :: "obj \<Rightarrow> jstring \<Rightarrow> json \<Rightarrow> obj" where
  "set_prop object k v = upsert k v object"

text \<open>
  The truth test of JavaScript on a value that may be \<open>undefined\<close> (\<open>None\<close>): \<open>undefined\<close>,
  \<open>null\<close>, \<open>false\<close>, zero and the empty text are false, everything else is true.
\<close>

fun truthy :: "json option \<Rightarrow> bool" where
  "truthy None = False"
| "truthy (Some JNull) = False"
| "truthy (Some (JBool b)) = b"
| "truthy (Some (JNum x)) = (x \<noteq> 0)"
| "truthy (Some (JStr s)) = (s \<noteq> [])"
| "truthy (Some (JArr xs)) = True"
| "truthy (Some (JObj kvs)) = True"

text \<open>\<open>a || b\<close>.\<close>

definition js_or :: "json option \<Rightarrow> json \<Rightarrow> json" where
  "js_or a b = (case a of Some v \<Rightarrow> if truthy (Some v) then v else b | None \<Rightarrow> b)"

text \<open>The decimal digits of an array index, the key under which an element is found.\<close>

fun decimal :: "nat \<Rightarrow> jstring" where
  "decimal n = (if n < 10 then [of_nat (48 + n)]
                else decimal (n div 10) @ [of_nat (48 + n mod 10)])"

declare decimal.simps [simp del]

text \<open>The own enumerable members of a value, in order: what \<open>{...v}\<close> copies.\<close>

fun spread :: "json option \<Rightarrow> obj" where
  "spread (Some (JObj kvs)) = kvs"
| "spread (Some (JArr xs)) = zip (map decimal [0..<length xs]) xs"
| "spread (Some (JStr s)) = zip (map decimal [0..<length s]) (map (\<lambda>c. JStr [c]) s)"
| "spread _ = []"

text \<open>
  \<open>v?.k\<close>: the member \<open>k\<close> of \<open>v\<close>, \<open>undefined\<close> when \<open>v\<close> is \<open>undefined\<close> or \<open>null\<close> or has
  no such member. An array and a text have their \<open>length\<close> and their indexed elements.
  The source reads a member without \<open>?.\<close> only from a value it has tested to be true,
  where \<open>v.k\<close> and \<open>v?.k\<close> agree; none of the keys it reads is an inherited one.
\<close>

fun member :: "json option \<Rightarrow> jstring \<Rightarrow> json option" where
  "member (Some (JObj kvs)) k = map_of kvs k"
| "member (Some (JArr xs)) k =
     (if k = utf16 ''length'' then Some (JNum (of_nat (length xs)))
      else map_of (spread (Some (JArr xs))) k)"
| "member (Some (JStr s)) k =
     (if k = utf16 ''length'' then Some (JNum (of_nat (length s)))
      else map_of (spread (Some (JStr s))) k)"
| "member _ k = None"

text \<open>
  \<open>x > n\<close> and \<open>x < n\<close> against a number literal: \<open>x\<close> is converted to a number first, and
  a comparison with \<open>NaN\<close> is false. A number converts to itself and \<open>undefined\<close> to
  \<open>NaN\<close>; \<open>ToNumber\<close> stands for the conversion of the other values (\<open>None\<close> is \<open>NaN\<close>).
\<close>

definition to_number :: "(json \<Rightarrow> rat option) \<Rightarrow> json option \<Rightarrow> rat option" where
  "to_number ToNumber v =
     (case v of None \<Rightarrow> None | Some (JNum x) \<Rightarrow> Some x | Some w \<Rightarrow> ToNumber w)"

definition js_gt :: "rat option \<Rightarrow> rat \<Rightarrow> bool" where
  "js_gt x n = (case x of None \<Rightarrow> False | Some y \<Rightarrow> y > n)"

definition js_lt :: "rat option \<Rightarrow> rat \<Rightarrow> bool" where
  "js_lt x n = (case x of None \<Rightarrow> False | Some y \<Rightarrow> y < n)"


section \<open>The stream decoder: sendChatMessageStream (services/api.ts)\<close>

subsection \<open>Events and lines\<close>

text \<open>
  The interface \<open>StreamEvent\<close>, as declared: the value \<open>JSON.parse(jsonStr)\<close> is read
  through it. A field is \<open>None\<close> when the parsed value has no such member;
  \<open>chart_config\<close> is declared \<open>Record<string, unknown> | null\<close> and optional, hence the
  three cases of \<open>nullable\<close>. The field \<open>type\<close> is compared with three literals only, so
  any other text is kept as it is. Members of another type than the interface declares are
  outside the model.
\<close>

datatype 'a nullable = Undefined | Null | Value 'a

record StreamEvent =
  ev_type :: "jstring option"
  ev_content :: "jstring option"
  ev_chart_config :: "obj nullable"
  ev_message :: "jstring option"

text \<open>One invocation of a callback of \<open>sendChatMessageStream\<close>, with its argument.\<close>

datatype callback =
    OnChunk jstring
  | OnDone "obj option"
  | OnError jstring

text \<open>What a \<open>throw\<close> carries: an \<open>Error\<close> with its message, or any other value.\<close>

datatype thrown = ErrorInstance jstring | NonError

text \<open>
  The body of the \<open>for (const line of lines)\<close> loop. \<open>JSON_parse\<close> stands for
  \<open>JSON.parse\<close> read through \<open>StreamEvent\<close>; it is \<open>None\<close> when the \<open>try\<close> block is
  left by an exception before a callback is reached (a syntax error, or the value
  \<open>null\<close>, whose member \<open>type\<close> cannot be read): the \<open>catch\<close> is empty.
  \<open>event.content\<close>, \<open>event.chart_config || null\<close> and \<open>event.message || "\<dots>"\<close> are
  JavaScript truth tests: an absent member and the empty string are both false.
  \<open>truthy_text\<close> is the test on an optional text and \<open>text_or\<close> is \<open>a || b\<close> on it; on a
  text that passed the test, \<open>text_or\<close> gives the text itself.
\<close>

definition truthy_text :: "jstring option \<Rightarrow> bool" where
  "truthy_text a = (case a of Some (c # cs) \<Rightarrow> True | _ \<Rightarrow> False)"

definition text_or :: "jstring option \<Rightarrow> jstring \<Rightarrow> jstring" where
  "text_or a b = (case a of Some (c # cs) \<Rightarrow> c # cs | _ \<Rightarrow> b)"

definition process_line :: "(jstring \<Rightarrow> StreamEvent option) \<Rightarrow> jstring \<Rightarrow> callback list" where
  "process_line JSON_parse line =
     (if prefix (utf16 ''data: '') line then
        (let jsonStr = drop 6 line in
         if trim jsonStr \<noteq> [] then
           (case JSON_parse jsonStr of
              None \<Rightarrow> []
            | Some event \<Rightarrow>
                if ev_type event = Some (utf16 ''chunk'') \<and> truthy_text (ev_content event) then
                  [OnChunk (text_or (ev_content event) [])]
                else if ev_type event = Some (utf16 ''done'') then
                  [OnDone (case ev_chart_config event of Value cfg \<Rightarrow> Some cfg | _ \<Rightarrow> None)]
                else if ev_type event = Some (utf16 ''error'') then
                  [OnError (text_or (ev_message event) unknown_error)]
                else [])
         else [])
      else [])"

subsection \<open>TextDecoder\<close>

text \<open>
  \<open>new TextDecoder()\<close> is the UTF-8 decoder of the Encoding Standard, which replaces
  what is malformed by U+FFFD: a machine that takes one byte at a time and keeps the code
  point under construction, the number of continuation bytes seen and needed and the
  bounds for the next byte. The record is its state, with the flag that says whether the
  place of a byte order mark is past. A code point is a natural number; \<open>b mod 64\<close> is
  \<open>b & 0x3F\<close>.
\<close>

record TextDecoder =
  code_point :: nat
  bytes_seen :: nat
  bytes_needed :: nat
  lower_boundary :: "8 word"
  upper_boundary :: "8 word"
  BOM_seen :: bool

definition new_TextDecoder :: TextDecoder where
  "new_TextDecoder = \<lparr>code_point = 0, bytes_seen = 0, bytes_needed = 0,
     lower_boundary = 0x80, upper_boundary = 0xBF, BOM_seen = False\<rparr>"

definition reset :: "TextDecoder \<Rightarrow> TextDecoder" where
  "reset d = d\<lparr>code_point := 0, bytes_seen := 0, bytes_needed := 0,
               lower_boundary := 0x80, upper_boundary := 0xBF\<rparr>"

text \<open>The handler on a byte that starts a code point: the code points it emits.\<close>

definition utf8_lead :: "TextDecoder \<Rightarrow> 8 word \<Rightarrow> nat list \<times> TextDecoder" where
  "utf8_lead d b =
     (if b \<le> 0x7F then ([unat b], d)
      else if 0xC2 \<le> b \<and> b \<le> 0xDF then
        ([], d\<lparr>bytes_needed := 1, code_point := unat b mod 32\<rparr>)
      else if 0xE0 \<le> b \<and> b \<le> 0xEF then
        ([], d\<lparr>lower_boundary := (if b = 0xE0 then 0xA0 else lower_boundary d),
               upper_boundary := (if b = 0xED then 0x9F else upper_boundary d),
               bytes_needed := 2, code_point := unat b mod 16\<rparr>)
      else if 0xF0 \<le> b \<and> b \<le> 0xF4 then
        ([], d\<lparr>lower_boundary := (if b = 0xF0 then 0x90 else lower_boundary d),
               upper_boundary := (if b = 0xF4 then 0x8F else upper_boundary d),
               bytes_needed := 3, code_point := unat b mod 8\<rparr>)
      else ([0xFFFD], d))"

text \<open>
  The handler: a byte outside the bounds ends the unfinished code point with U+FFFD and
  is then read again as the start of a code point.
\<close>

definition utf8_handler :: "TextDecoder \<Rightarrow> 8 word \<Rightarrow> nat list \<times> TextDecoder" where
  "utf8_handler d b =
     (if bytes_needed d = 0 then utf8_lead d b
      else if b < lower_boundary d \<or> upper_boundary d < b then
        (let (cps, d') = utf8_lead (reset d) b in (0xFFFD # cps, d'))
      else
        (let cp = code_point d * 64 + unat b mod 64;
             seen = bytes_seen d + 1
         in if seen \<noteq> bytes_needed d then
              ([], d\<lparr>code_point := cp, bytes_seen := seen,
                     lower_boundary := 0x80, upper_boundary := 0xBF\<rparr>)
            else ([cp], reset d)))"

text \<open>The code units of a code point: itself, or a surrogate pair from U+10000 on.\<close>

definition utf16_units :: "nat \<Rightarrow> jstring" where
  "utf16_units cp =
     (if cp < 0x10000 then [of_nat cp]
      else [of_nat (0xD800 + (cp - 0x10000) div 1024), of_nat (0xDC00 + (cp - 0x10000) mod 1024)])"

text \<open>The emitted code points become text; a byte order mark in the first place is dropped.\<close>

fun serialize :: "TextDecoder \<Rightarrow> nat list \<Rightarrow> jstring \<times> TextDecoder" where
  "serialize d [] = ([], d)"
| "serialize d (cp # cps) =
     (if \<not> BOM_seen d \<and> cp = 0xFEFF then serialize (d\<lparr>BOM_seen := True\<rparr>) cps
      else (let (t, d') = serialize (d\<lparr>BOM_seen := True\<rparr>) cps in (utf16_units cp @ t, d')))"

text \<open>
  \<open>decoder.decode(value, {stream: true})\<close>: the machine run over the bytes of the chunk;
  the state stays for the next call and nothing is flushed.
\<close>

fun decode :: "TextDecoder \<Rightarrow> bytes \<Rightarrow> jstring \<times> TextDecoder" where
  "decode d [] = ([], d)"
| "decode d (b # bs) =
     (let (cps, d1) = utf8_handler d b;
          (t, d2) = serialize d1 cps;
          (ts, d3) = decode d2 bs
      in (t @ ts, d3))"


subsection \<open>The read loop\<close>

text \<open>
  The \<open>while (true)\<close> loop over \<open>reader.read()\<close>, with the decoder and the buffer as they
  stand. The loop ends when the chunks are exhausted (\<open>done\<close>); what is left in \<open>buffer\<close>
  then is dropped, and so is what the decoder holds.
\<close>

fun read_loop ::
  "(jstring \<Rightarrow> StreamEvent option) \<Rightarrow> TextDecoder \<Rightarrow> jstring \<Rightarrow> bytes list \<Rightarrow> callback list" where
  "read_loop JSON_parse decoder buffer [] = []"
| "read_loop JSON_parse decoder buffer (v # rest) =
     (let (text, decoder') = decode decoder v;
          buffer1 = buffer @ text;
          (popped, lines) = pop (split_newline buffer1);
          buffer2 = text_or popped []
      in concat (map (process_line JSON_parse) lines)
         @ read_loop JSON_parse decoder' buffer2 rest)"

text \<open>How the body of a response ends: \<open>read()\<close> reports \<open>done\<close>, or it rejects.\<close>

datatype stream_end = EndOfStream | ReadRejected jstring

text \<open>
  What \<open>fetch\<close> and the response can do: \<open>fetch\<close> (or reading the error body) rejects
  with an \<open>Error\<close>; the status is not a success and the error body has the member
  \<open>detail\<close> or not; the response has no body to read; or the body delivers its chunks.
\<close>

datatype response =
    Rejected jstring
  | NotOk "jstring option"
  | NoBody
  | Body "bytes list" stream_end

text \<open>
  \<open>sendChatMessageStream\<close>: the callbacks it invokes, in order, and what it throws
  if it does not return.
\<close>

definition sendChatMessageStream ::
  "(jstring \<Rightarrow> StreamEvent option) \<Rightarrow> response \<Rightarrow> callback list \<times> thrown option" where
  "sendChatMessageStream JSON_parse r =
     (case r of
        Rejected m \<Rightarrow> ([], Some (ErrorInstance m))
      | NotOk detail \<Rightarrow>
          ([], Some (ErrorInstance (text_or detail send_failed)))
      | NoBody \<Rightarrow> ([], Some (ErrorInstance cannot_read_stream))
      | Body chunks e \<Rightarrow>
          (read_loop JSON_parse new_TextDecoder [] chunks,
           case e of EndOfStream \<Rightarrow> None | ReadRejected m \<Rightarrow> Some (ErrorInstance m)))"


subsection \<open>Sample frames\<close>

text \<open>
  The text that the loop has appended to \<open>buffer\<close> in all, chunk after chunk.
\<close>

fun decode_text :: "TextDecoder \<Rightarrow> bytes list \<Rightarrow> jstring" where
  "decode_text d [] = []"
| "decode_text d (v # rest) =
     (let (t, d') = decode d v in t @ decode_text d' rest)"

text \<open>
  The sample frames: the remainders \<open>{"type":"chunk","content":"hi"}\<close>,
  \<open>{"type":"done"}\<close> and \<open>{"type":"error","message":"boom"}\<close>, a chunk whose content
  is the one character U+4F60, the events they parse to, and a frame as it is sent:
  \<open>data: \<close>, the remainder and a newline.
\<close>

definition chunk_hi_json :: jstring where
  \<open>chunk_hi_json = utf16 ''{"type":"chunk","content":"hi"}''\<close>

definition done_json :: jstring where
  \<open>done_json = utf16 ''{"type":"done"}''\<close>

definition error_json :: jstring where
  \<open>error_json = utf16 ''{"type":"error","message":"boom"}''\<close>

definition chunk_ni_json :: jstring where
  \<open>chunk_ni_json = utf16 ''{"type":"chunk","content":"'' @ [0x4F60] @ utf16 ''"}''\<close>

definition chunk_hi_event :: StreamEvent where
  "chunk_hi_event = \<lparr>ev_type = Some (utf16 ''chunk''), ev_content = Some (utf16 ''hi''),
     ev_chart_config = Undefined, ev_message = None\<rparr>"

definition done_event :: StreamEvent where
  "done_event = \<lparr>ev_type = Some (utf16 ''done''), ev_content = None,
     ev_chart_config = Undefined, ev_message = None\<rparr>"

definition error_event :: StreamEvent where
  "error_event = \<lparr>ev_type = Some (utf16 ''error''), ev_content = None,
     ev_chart_config = Undefined, ev_message = Some (utf16 ''boom'')\<rparr>"

definition chunk_ni_event :: StreamEvent where
  "chunk_ni_event = \<lparr>ev_type = Some (utf16 ''chunk''), ev_content = Some [0x4F60],
     ev_chart_config = Undefined, ev_message = None\<rparr>"

definition frame :: "jstring \<Rightarrow> jstring" where
  "frame js = utf16 ''data: '' @ js @ [newline]"

text \<open>
  \<open>JSON.parse\<close> on the four sample remainders; it is used on no other text but
  \<open>not-json\<close>, where it fails as \<open>JSON.parse\<close> does.
\<close>

definition sample_parse :: "jstring \<Rightarrow> StreamEvent option" where
  "sample_parse s =
     (if s = chunk_hi_json then Some chunk_hi_event
      else if s = done_json then Some done_event
      else if s = error_json then Some error_event
      else if s = chunk_ni_json then Some chunk_ni_event
      else None)"

text \<open>
  The bytes of an ASCII literal, and the bytes of the sample frames; U+4F60 is the three
  bytes E4 BD A0.
\<close>

definition ascii_bytes :: "string \<Rightarrow> bytes" where
  "ascii_bytes s = map (\<lambda>c. of_nat (of_char c)) s"

definition chunk_hi_bytes :: bytes where
  \<open>chunk_hi_bytes = ascii_bytes ''data: {"type":"chunk","content":"hi"}'' @ [0x0A]\<close>

definition done_bytes :: bytes where
  \<open>done_bytes = ascii_bytes ''data: {"type":"done"}'' @ [0x0A]\<close>

definition error_bytes :: bytes where
  \<open>error_bytes = ascii_bytes ''data: {"type":"error","message":"boom"}'' @ [0x0A]\<close>

definition chunk_ni_bytes :: bytes where
  \<open>chunk_ni_bytes = ascii_bytes ''data: {"type":"chunk","content":"'' @ [0xE4, 0xBD, 0xA0]
     @ ascii_bytes ''"}'' @ [0x0A]\<close>

text \<open>
  A chunk frame, a blank line, the line \<open>data: not-json\<close> and a done frame.
\<close>

definition tolerance_text :: jstring where
  "tolerance_text =
     frame chunk_hi_json @ [newline] @ utf16 ''data: not-json'' @ [newline] @ frame done_json"

definition tolerance_bytes :: bytes where
  "tolerance_bytes = chunk_hi_bytes @ [0x0A] @ ascii_bytes ''data: not-json'' @ [0x0A] @ done_bytes"


section \<open>Data-source tokens: handleSheetsChange (pages/SessionPage.tsx and GeneratePage, unnamed/part_002)\<close>

text \<open>
  \<open>RestoredFileInfo\<close> of SessionPage. GeneratePage keeps the same two pieces of a file
  as \<open>uploadResult.file_id\<close> and \<open>selectedSheets\<close>.
\<close>

record RestoredFileInfo =
  file_id :: jstring
  filename :: jstring
  sheet_names :: "jstring list"
  selectedSheets :: "jstring list"

text \<open>
  The body of the outer \<open>forEach\<close> of the recomputation: one \<open>push\<close> of
  \<open>`${file_id}:${sheet}`\<close> per selected sheet when there is one, else one \<open>push\<close> of the
  file id. \<open>fid\<close> and \<open>sel\<close> read the file id and the selected sheets of an entry, so
  that the loop of both pages is this one definition.
\<close>

definition push_file :: "('f \<Rightarrow> jstring) \<Rightarrow> ('f \<Rightarrow> jstring list) \<Rightarrow> jstring list \<Rightarrow> 'f \<Rightarrow> jstring list" where
  "push_file fid sel newDataSourceIds info =
     (if length (sel info) > 0 then
        foldl (\<lambda>ids sheet. ids @ [fid info @ utf16 '':'' @ sheet]) newDataSourceIds (sel info)
      else newDataSourceIds @ [fid info])"

text \<open>\<open>const newDataSourceIds = []; infos.forEach(\<dots>)\<close>.\<close>

definition recompute_ids :: "('f \<Rightarrow> jstring) \<Rightarrow> ('f \<Rightarrow> jstring list) \<Rightarrow> 'f list \<Rightarrow> jstring list" where
  "recompute_ids fid sel infos = foldl (push_file fid sel) [] infos"

text \<open>
  The first half of \<open>handleSheetsChange\<close> of SessionPage: the copy of \<open>fileInfos\<close> with the
  selection of one file replaced, and the token list recomputed from the copy. The index
  is the position of the file in the rendered list and so lies in the list; an index
  beyond it (where JavaScript would extend the array) is outside the model: \<open>None\<close>.
\<close>

definition handleSheetsChange ::
  "nat \<Rightarrow> jstring list \<Rightarrow> RestoredFileInfo list \<Rightarrow> (RestoredFileInfo list \<times> jstring list) option" where
  "handleSheetsChange fileIndex newSheets fileInfos =
     (if fileIndex < length fileInfos then
        (let updatedInfos =
               fileInfos[fileIndex := (fileInfos ! fileIndex)\<lparr>selectedSheets := newSheets\<rparr>]
         in Some (updatedInfos, recompute_ids file_id selectedSheets updatedInfos))
      else None)"

text \<open>
  The token list that the claim describes, in the words of the specification
  (\<open>buildTokenSet\<close>): per file its sheet tokens or its bare id, concatenated in file order.
\<close>

definition buildTokenSet :: "('f \<Rightarrow> jstring) \<Rightarrow> ('f \<Rightarrow> jstring list) \<Rightarrow> 'f list \<Rightarrow> jstring list" where
  "buildTokenSet fid sel files =
     concat (map (\<lambda>f. if sel f = [] then [fid f]
                        else map (\<lambda>sheet. fid f @ utf16 '':'' @ sheet) (sel f)) files)"

text \<open>Three sample files, with no, one and two selected sheets.\<close>

definition sample_files :: "RestoredFileInfo list" where
  "sample_files =
     [\<lparr>file_id = utf16 ''f0'', filename = utf16 ''a.csv'', sheet_names = [], selectedSheets = []\<rparr>,
      \<lparr>file_id = utf16 ''f1'', filename = utf16 ''b.xlsx'',
        sheet_names = [utf16 ''S'', utf16 ''T''], selectedSheets = [utf16 ''S'']\<rparr>,
      \<lparr>file_id = utf16 ''f2'', filename = utf16 ''c.xlsx'',
        sheet_names = [utf16 ''A'', utf16 ''B''], selectedSheets = [utf16 ''A'', utf16 ''B'']\<rparr>]"


section \<open>The transcript and a turn: handleSend (pages/SessionPage.tsx and GeneratePage, unnamed/part_002)\<close>

text \<open>\<open>ChatMessage\<close> of components/ChatMessageList.tsx; an optional field is an option.\<close>

datatype role = User | Assistant

record ChatMessage =
  msg_id :: jstring
  role :: role
  content :: jstring
  chartConfig :: "obj option"
  isLoading :: "bool option"

text \<open>
  \<open>showLoading\<close> of \<open>ChatMessageItem\<close>: the entry is drawn with the typing indicator, the
  only mark of an entry that is still being filled. The source has no other flag for it:
  \<open>handleSend\<close> never sets \<open>isLoading\<close>, and an assistant entry counts as loading while
  its content is blank.
\<close>

definition showLoading :: "ChatMessage \<Rightarrow> bool" where
  "showLoading m = (role m = Assistant \<and> (isLoading m = Some True \<or> trim (content m) = []))"

text \<open>
  The three closures that a turn passes to \<open>sendChatMessageStream\<close>, acting on the local
  \<open>streamContent\<close> and on the transcript (the functional updates of \<open>setMessages\<close>, applied
  in the order they were queued). Each replaces the last entry of the transcript as it
  is when the update is applied, whichever entry that is: \<open>prev.slice(0, -1)\<close> is
  \<open>butlast\<close>. \<open>failed\<close> is the text put before an error: "generation failed:" in
  \<open>handleSend\<close>, "error:" in the first turn of GeneratePage.
\<close>

definition assistant_entry :: "jstring \<Rightarrow> jstring \<Rightarrow> obj option \<Rightarrow> ChatMessage" where
  "assistant_entry assistantMsgId text cfg =
     \<lparr>msg_id = assistantMsgId, role = Assistant, content = text, chartConfig = cfg,
      isLoading = None\<rparr>"

fun invoke ::
  "jstring \<Rightarrow> jstring \<Rightarrow> jstring \<times> ChatMessage list \<Rightarrow> callback \<Rightarrow> jstring \<times> ChatMessage list" where
  "invoke failed assistantMsgId (streamContent, prev) (OnChunk chunk) =
     (streamContent @ chunk,
      butlast prev @ [assistant_entry assistantMsgId (streamContent @ chunk) None])"
| "invoke failed assistantMsgId (streamContent, prev) (OnDone cfg) =
     (streamContent, butlast prev @ [assistant_entry assistantMsgId streamContent cfg])"
| "invoke failed assistantMsgId (streamContent, prev) (OnError e) =
     (streamContent, butlast prev @ [assistant_entry assistantMsgId (failed @ e) None])"

text \<open>\<open>error instanceof Error ? error.message : "\<dots>"\<close> of the \<open>catch\<close> blocks.\<close>

definition error_message :: "thrown \<Rightarrow> jstring" where
  "error_message err = (case err of ErrorInstance m \<Rightarrow> m | NonError \<Rightarrow> unknown_error)"

text \<open>
  \<open>handleSheetsChange\<close> of SessionPage, after its \<open>await selectMultipleSheets\<close>: the
  notice it appends to the transcript. \<open>now\<close> is the reading of \<open>Date.now()\<close>, \<open>newSheets\<close>
  the selection that was asked for and \<open>sheetsInfo\<close> the text joined from the answer. The
  three pieces of the template are "selected " (U+5DF2 U+9009 U+62E9 and a space),
  " Sheet:" with its counter word (U+4E2A) and a full-width colon, and the closing hint
  (a space, U+1F4A1 as its two code units, a space and sixteen characters).
\<close>

definition sheets_selected :: jstring where
  "sheets_selected = [0x5DF2, 0x9009, 0x62E9, 0x20]"

definition sheets_counted :: jstring where
  "sheets_counted = [0x20, 0x4E2A, 0x20] @ utf16 ''Sheet'' @ [0xFF1A]"

definition joint_analysis_hint :: jstring where
  "joint_analysis_hint =
     [0x20, 0xD83D, 0xDCA1, 0x20, 0x73B0, 0x5728, 0x53EF, 0x4EE5, 0x57FA, 0x4E8E, 0x8FD9, 0x4E9B,
      0x6570, 0x636E, 0x8FDB, 0x884C, 0x8054, 0x5408, 0x5206, 0x6790]"

definition sheet_change_entry :: "jstring \<Rightarrow> jstring list \<Rightarrow> jstring \<Rightarrow> ChatMessage" where
  "sheet_change_entry now newSheets sheetsInfo =
     \<lparr>msg_id = utf16 ''sheet-change-'' @ now, role = Assistant,
      content = sheets_selected @ decimal (length newSheets) @ sheets_counted @ sheetsInfo @
                joint_analysis_hint,
      chartConfig = None, isLoading = None\<rparr>"

text \<open>
  What can write the transcript of SessionPage while a turn is in flight. The callbacks
  of the turn do; and \<open>handleSheetsChange\<close> does, which sets no flag: a selection made
  before the turn, whose request is answered during it, appends its notice between the
  writes of the turn (\<open>SheetsAnswer now newSheets sheetsInfo\<close>; the request is made only
  for a selection that is not empty). The selector and the input are disabled during the
  turn, and the session is loaded under \<open>loading\<close>, when \<open>handleSend\<close> returns at its
  guard, so nothing else writes the transcript then.
\<close>

datatype sheets_answer = SheetsAnswer jstring "jstring list" jstring

datatype turn_event = Callback callback | Answered sheets_answer

fun turn_step ::
  "jstring \<Rightarrow> jstring \<Rightarrow> jstring \<times> ChatMessage list \<Rightarrow> turn_event \<Rightarrow> jstring \<times> ChatMessage list" where
  "turn_step failed assistantMsgId s (Callback cb) = invoke failed assistantMsgId s cb"
| "turn_step failed assistantMsgId (streamContent, prev)
       (Answered (SheetsAnswer now newSheets sheetsInfo)) =
     (streamContent,
      if length newSheets > 0 then prev @ [sheet_change_entry now newSheets sheetsInfo]
      else prev)"

text \<open>
  The start of a turn of \<open>handleSend\<close>, after its guard: the user entry and the empty
  assistant entry. \<open>userNow\<close> and \<open>assistantNow\<close> are the two readings of \<open>Date.now()\<close>.
\<close>

definition user_entry :: "jstring \<Rightarrow> jstring \<Rightarrow> ChatMessage" where
  "user_entry userMsgId text =
     \<lparr>msg_id = userMsgId, role = User, content = text, chartConfig = None, isLoading = None\<rparr>"

definition turn_start :: "jstring \<Rightarrow> jstring \<Rightarrow> jstring \<Rightarrow> ChatMessage list \<Rightarrow> ChatMessage list" where
  "turn_start userNow assistantNow text prev =
     prev @ [user_entry (utf16 ''u-'' @ userNow) text,
             assistant_entry (utf16 ''a-'' @ assistantNow) [] None]"

text \<open>
  The turn while the stream runs: \<open>streamContent\<close> and the transcript after the events so
  far, the callbacks delivered and the notices appended between them.
\<close>

definition turn_progress ::
  "jstring \<Rightarrow> jstring \<Rightarrow> jstring \<Rightarrow> turn_event list \<Rightarrow> ChatMessage list \<Rightarrow> jstring \<times> ChatMessage list" where
  "turn_progress userNow assistantNow text events prev =
     foldl (turn_step generation_failed (utf16 ''a-'' @ assistantNow))
       ([], turn_start userNow assistantNow text prev) events"

text \<open>
  The transcript when the turn has settled: all events applied, and the \<open>catch\<close>, which
  replaces the last entry too, if \<open>sendChatMessageStream\<close> threw.
\<close>

definition turn_messages ::
  "jstring \<Rightarrow> jstring \<Rightarrow> jstring \<Rightarrow> turn_event list \<Rightarrow> thrown option \<Rightarrow> ChatMessage list \<Rightarrow>
   ChatMessage list" where
  "turn_messages userNow assistantNow text events failure prev =
     (let msgs = snd (turn_progress userNow assistantNow text events prev)
      in case failure of
           None \<Rightarrow> msgs
         | Some err \<Rightarrow>
             butlast msgs @ [assistant_entry (utf16 ''a-'' @ assistantNow)
                               (generation_failed @ error_message err) None])"

text \<open>
  The events of a turn of SessionPage, from the callbacks of its stream and the answers
  to earlier sheet selections: \<open>answered k\<close> lists the answers that arrive when \<open>k\<close>
  callbacks have been delivered, before the next callback or, after the last one, before
  the turn ends. \<open>no_answer\<close> says that none arrives during the turn.
\<close>

fun interleave :: "(nat \<Rightarrow> sheets_answer list) \<Rightarrow> nat \<Rightarrow> callback list \<Rightarrow> turn_event list" where
  "interleave answered k [] = map Answered (answered k)"
| "interleave answered k (cb # cbs) =
     map Answered (answered k) @ Callback cb # interleave answered (Suc k) cbs"

definition no_answer :: "(nat \<Rightarrow> sheets_answer list) \<Rightarrow> callback list \<Rightarrow> bool" where
  "no_answer answered cbs = list_all (\<lambda>k. answered k = []) [0..<Suc (length cbs)]"

record ChatRequestPayload =
  session_id :: jstring
  message :: jstring
  file_ids :: "jstring list"

text \<open>
  The state of SessionPage that \<open>handleSend\<close> reads and writes. \<open>sessionDetail\<close> is kept as
  its member \<open>file_ids\<close> (\<open>string[] | null\<close>), \<open>None\<close> while no session is loaded;
  \<open>requests\<close> lists the calls of \<open>sendChatMessageStream\<close>, the only outbound requests of a
  turn.
\<close>

record SessionPage =
  messages :: "ChatMessage list"
  loading :: bool
  isStreaming :: bool
  sessionDetail :: "jstring list option option"
  dataSourceIds :: "jstring list"
  requests :: "ChatRequestPayload list"

text \<open>The request of a turn: \<open>dataSourceIds\<close> if there are any, else the ids of the session.\<close>

definition SessionPage_payload :: "jstring \<Rightarrow> jstring \<Rightarrow> SessionPage \<Rightarrow> ChatRequestPayload" where
  "SessionPage_payload sessionId text st =
     \<lparr>session_id = sessionId, message = text,
      file_ids = (if length (dataSourceIds st) > 0 then dataSourceIds st
                  else (case sessionDetail st of Some (Some ids) \<Rightarrow> ids | _ \<Rightarrow> []))\<rparr>"

text \<open>
  The page while a turn is in flight: the guard passed, the two entries appended,
  \<open>isStreaming\<close> set, the request sent, and the events so far applied.
\<close>

definition SessionPage_streaming ::
  "jstring \<Rightarrow> jstring \<Rightarrow> jstring \<Rightarrow> jstring \<Rightarrow> turn_event list \<Rightarrow> SessionPage \<Rightarrow> SessionPage" where
  "SessionPage_streaming sessionId userNow assistantNow text events st =
     st\<lparr>messages := snd (turn_progress userNow assistantNow text events (messages st)),
        isStreaming := True,
        requests := requests st @ [SessionPage_payload sessionId text st]\<rparr>"

text \<open>
  \<open>handleSend\<close> of SessionPage, run to its end: the guard, then the turn with what
  \<open>sendChatMessageStream\<close> does for the request (\<open>stream\<close>) and the answers that arrive
  meanwhile (\<open>answered\<close>), then \<open>finally\<close>.
\<close>

definition SessionPage_handleSend ::
  "(ChatRequestPayload \<Rightarrow> callback list \<times> thrown option) \<Rightarrow> (nat \<Rightarrow> sheets_answer list) \<Rightarrow>
   jstring \<Rightarrow> jstring \<Rightarrow> jstring \<Rightarrow> jstring \<Rightarrow> SessionPage \<Rightarrow> SessionPage" where
  "SessionPage_handleSend stream answered sessionId userNow assistantNow text st =
     (if sessionDetail st = None \<or> loading st \<or> isStreaming st then st
      else
        (let payload = SessionPage_payload sessionId text st;
             outcome = stream payload
         in st\<lparr>messages :=
                 turn_messages userNow assistantNow text (interleave answered 0 (fst outcome))
                   (snd outcome) (messages st),
               isStreaming := False,
               requests := requests st @ [payload]\<rparr>))"

text \<open>
  The same for GeneratePage, whose guard reads \<open>fileIds\<close>, \<open>sessionId\<close> and \<open>loading\<close>, and
  whose flag of a turn in flight is \<open>loading\<close>. An empty \<open>sessionId\<close> is as false as
  \<open>null\<close>. Its \<open>handleSheetsChange\<close> sets \<open>loading\<close> before its request and clears it after
  its notice, and \<open>init\<close> runs under \<open>loading\<close> too, so while a turn of \<open>handleSend\<close> is
  in flight only its callbacks write the transcript.
\<close>

record GeneratePage =
  g_messages :: "ChatMessage list"
  g_loading :: bool
  fileIds :: "jstring list"
  g_sessionId :: "jstring option"
  g_requests :: "ChatRequestPayload list"

definition GeneratePage_rejects :: "GeneratePage \<Rightarrow> bool" where
  "GeneratePage_rejects st =
     (length (fileIds st) = 0 \<or> (case g_sessionId st of Some (c # cs) \<Rightarrow> False | _ \<Rightarrow> True)
      \<or> g_loading st)"

definition GeneratePage_payload :: "jstring \<Rightarrow> GeneratePage \<Rightarrow> ChatRequestPayload" where
  "GeneratePage_payload text st =
     \<lparr>session_id = (case g_sessionId st of Some sid \<Rightarrow> sid | None \<Rightarrow> []), message = text,
      file_ids = fileIds st\<rparr>"

definition GeneratePage_streaming ::
  "jstring \<Rightarrow> jstring \<Rightarrow> jstring \<Rightarrow> callback list \<Rightarrow> GeneratePage \<Rightarrow> GeneratePage" where
  "GeneratePage_streaming userNow assistantNow text delivered st =
     st\<lparr>g_messages :=
          snd (turn_progress userNow assistantNow text (map Callback delivered) (g_messages st)),
        g_loading := True,
        g_requests := g_requests st @ [GeneratePage_payload text st]\<rparr>"

definition GeneratePage_handleSend ::
  "(ChatRequestPayload \<Rightarrow> callback list \<times> thrown option) \<Rightarrow> jstring \<Rightarrow> jstring \<Rightarrow> jstring \<Rightarrow>
   GeneratePage \<Rightarrow> GeneratePage" where
  "GeneratePage_handleSend stream userNow assistantNow text st =
     (if GeneratePage_rejects st then st
      else
        (let payload = GeneratePage_payload text st;
             outcome = stream payload
         in st\<lparr>g_messages :=
                 turn_messages userNow assistantNow text (map Callback (fst outcome))
                   (snd outcome) (g_messages st),
               g_loading := False,
               g_requests := g_requests st @ [payload]\<rparr>))"

text \<open>
  The first turn, in \<open>init\<close> of GeneratePage (from \<open>if (initialPrompt)\<close> to the \<open>catch\<close>),
  while the page is mounted (\<open>cancelled\<close> is false): the entries \<open>m3\<close> and \<open>m4\<close>, the
  callbacks with the text "error:" before an error, and a \<open>catch\<close> that appends an entry
  \<open>error\<close> instead of replacing the last one.
\<close>

definition init_generate ::
  "(ChatRequestPayload \<Rightarrow> callback list \<times> thrown option) \<Rightarrow> jstring \<Rightarrow> jstring \<Rightarrow> jstring list \<Rightarrow>
   ChatMessage list \<Rightarrow> ChatMessage list" where
  "init_generate stream sessionId initialPrompt ids prev =
     (if initialPrompt \<noteq> [] then
        (let outcome = stream \<lparr>session_id = sessionId, message = initialPrompt, file_ids = ids\<rparr>;
             (streamContent, msgs) =
                foldl (invoke error_colon (utf16 ''m4''))
                  ([], prev @ [user_entry (utf16 ''m3'') initialPrompt,
                                assistant_entry (utf16 ''m4'') [] None])
                  (fst outcome)
         in case snd outcome of
              None \<Rightarrow> msgs
            | Some err \<Rightarrow>
                msgs @ [assistant_entry (utf16 ''error'') (error_colon @ error_message err) None])
      else prev)"

text \<open>A page with a loaded session and an empty transcript, and the sample turn texts.\<close>

definition sample_page :: SessionPage where
  "sample_page = \<lparr>messages = [], loading = False, isStreaming = False,
     sessionDetail = Some (Some [utf16 ''f1'']), dataSourceIds = [utf16 ''f1:Sheet1''],
     requests = []\<rparr>"

definition sample_generate_page :: GeneratePage where
  "sample_generate_page = \<lparr>g_messages = [], g_loading = False, fileIds = [utf16 ''f1''],
     g_sessionId = Some (utf16 ''s1''), g_requests = []\<rparr>"

text \<open>
  The answer to a selection of the sheet S (of 3 rows), made before a turn, that arrives
  when the turn has started and no callback has been delivered yet.
\<close>

definition sample_answer :: sheets_answer where
  "sample_answer =
     SheetsAnswer (utf16 ''0'') [utf16 ''S'']
       ([0x300C] @ utf16 ''S'' @ [0x300D] @ utf16 ''(3'' @ [0x884C] @ utf16 '')'')"

definition sample_answered :: "nat \<Rightarrow> sheets_answer list" where
  "sample_answered k = (if k = 0 then [sample_answer] else [])"

text \<open>The text of the chunks among some callbacks: what \<open>streamContent\<close> has gathered.\<close>

definition chunks_text :: "callback list \<Rightarrow> jstring" where
  "chunks_text cbs = concat (map (\<lambda>cb. case cb of OnChunk c \<Rightarrow> c | _ \<Rightarrow> []) cbs)"

text \<open>
  The message with which a turn fails, if it does: the message of what
  \<open>sendChatMessageStream\<close> threw (a transport failure), or else that of an error event
  delivered last.
\<close>

definition failure_text :: "callback list \<times> thrown option \<Rightarrow> jstring option" where
  "failure_text outcome =
     (case snd outcome of
        Some err \<Rightarrow> Some (error_message err)
      | None \<Rightarrow>
          (case rev (fst outcome) of
             OnError e # _ \<Rightarrow> Some e
           | _ \<Rightarrow> None))"


section \<open>Configuration normalisation: the effect of MessageChart (components/ChatMessageList.tsx)\<close>

text \<open>\<open>hasTitle\<close>, \<open>hasLegend\<close> and \<open>isRadarChart\<close>, read from the copy of the configuration.\<close>

definition hasTitle :: "obj \<Rightarrow> bool" where
  "hasTitle safeConfig = truthy (member (map_of safeConfig (utf16 ''title'')) (utf16 ''text''))"

definition hasLegend :: "obj \<Rightarrow> bool" where
  "hasLegend safeConfig = truthy (member (map_of safeConfig (utf16 ''legend'')) (utf16 ''data''))"

definition isRadarChart :: "obj \<Rightarrow> bool" where
  "isRadarChart safeConfig = truthy (map_of safeConfig (utf16 ''radar''))"

text \<open>\<open>legendData && legendData.length > n\<close>, with \<open>legendData = legend?.data\<close>.\<close>

definition legend_longer :: "(json \<Rightarrow> rat option) \<Rightarrow> obj \<Rightarrow> rat \<Rightarrow> bool" where
  "legend_longer ToNumber safeConfig n =
     (let legendData = member (map_of safeConfig (utf16 ''legend'')) (utf16 ''data'')
      in truthy legendData
         \<and> js_gt (to_number ToNumber (member legendData (utf16 ''length''))) n)"

text \<open>
  The block for radar charts: with a legend of more than three items the legend is laid
  out vertically at the left and the radar gets a centre and a radius unless it has them.
\<close>

definition radar_layout :: "(json \<Rightarrow> rat option) \<Rightarrow> obj \<Rightarrow> obj" where
  "radar_layout ToNumber safeConfig =
     (if isRadarChart safeConfig \<and> hasLegend safeConfig then
        (if legend_longer ToNumber safeConfig 3 then
           (let legend = map_of safeConfig (utf16 ''legend'');
                c1 = set_prop safeConfig (utf16 ''legend'')
                       (JObj (set_prop (set_prop (set_prop (spread legend)
                          (utf16 ''orient'') (JStr (utf16 ''vertical'')))
                          (utf16 ''left'') (JNum 10))
                          (utf16 ''top'') (JNum 50)));
                radar = map_of c1 (utf16 ''radar'')
            in set_prop c1 (utf16 ''radar'')
                 (JObj (set_prop (set_prop (spread radar)
                    (utf16 ''center'')
                      (js_or (member radar (utf16 ''center''))
                         (JArr [JStr (utf16 ''60%''), JStr (utf16 ''55%'')])))
                    (utf16 ''radius'')
                      (js_or (member radar (utf16 ''radius'')) (JStr (utf16 ''55%''))))))
         else safeConfig)
      else safeConfig)"

text \<open>
  \<open>minTop\<close>: 60, or 80 with a title and a legend; the line \<open>if (hasTitle) minTop =
  Math.max(minTop, 50)\<close>; then 100 for a chart that is not a radar and whose legend has
  more than four items.
\<close>

definition minTop :: "(json \<Rightarrow> rat option) \<Rightarrow> obj \<Rightarrow> rat" where
  "minTop ToNumber safeConfig =
     (let m0 = 60;
          m1 = (if hasTitle safeConfig \<and> hasLegend safeConfig then 80 else m0);
          m2 = (if hasTitle safeConfig then max m1 50 else m1)
      in if hasLegend safeConfig \<and> \<not> isRadarChart safeConfig then
           (if legend_longer ToNumber safeConfig 4 then 100 else m2)
         else m2)"

text \<open>
  \<open>currentTop\<close>: the number \<open>grid.top\<close>, or \<open>parseInt(grid.top)\<close> for a text, or 0.
  \<open>parseInt\<close> stands for the function of JavaScript, \<open>None\<close> being \<open>NaN\<close>.
\<close>

definition currentTop :: "(jstring \<Rightarrow> rat option) \<Rightarrow> json option \<Rightarrow> rat option" where
  "currentTop parseInt grid =
     (case member grid (utf16 ''top'') of
        Some (JNum x) \<Rightarrow> Some x
      | Some (JStr s) \<Rightarrow> parseInt s
      | _ \<Rightarrow> Some 0)"

text \<open>The block for the other charts: a grid with \<open>top\<close> raised to \<open>minTop\<close>.\<close>

definition grid_margin :: "(jstring \<Rightarrow> rat option) \<Rightarrow> rat \<Rightarrow> obj \<Rightarrow> obj" where
  "grid_margin parseInt m safeConfig =
     (if \<not> truthy (map_of safeConfig (utf16 ''grid'')) then
        set_prop safeConfig (utf16 ''grid'')
          (JObj [(utf16 ''top'', JNum m), (utf16 ''left'', JNum 60),
                 (utf16 ''right'', JNum 30), (utf16 ''bottom'', JNum 60)])
      else
        (let grid = map_of safeConfig (utf16 ''grid'')
         in if js_lt (currentTop parseInt grid) m then
              set_prop safeConfig (utf16 ''grid'')
                (JObj (set_prop (spread grid) (utf16 ''top'') (JNum m)))
            else safeConfig))"

text \<open>
  The configuration that the effect passes to \<open>setOption\<close>: the flags are read from the
  copy first, then the radar block, \<open>minTop\<close> and the grid block run in this order.
\<close>

definition safeConfig_of ::
  "(json \<Rightarrow> rat option) \<Rightarrow> (jstring \<Rightarrow> rat option) \<Rightarrow> obj \<Rightarrow> obj" where
  "safeConfig_of ToNumber parseInt config =
     (let radar = isRadarChart config;
          c1 = radar_layout ToNumber config;
          m = minTop ToNumber config
      in if \<not> radar then grid_margin parseInt m c1 else c1)"

text \<open>
  Two sample configurations: a bar chart with a title, a legend of five items and a grid
  whose top is the text \<open>10%\<close>, and a radar chart with a legend of four items. The sample
  \<open>parseInt\<close> knows the one text, the sample \<open>ToNumber\<close> is never asked.
\<close>

definition sample_bar :: obj where
  "sample_bar =
     [(utf16 ''title'', JObj [(utf16 ''text'', JStr (utf16 ''Totals''))]),
      (utf16 ''legend'', JObj [(utf16 ''data'',
          JArr [JStr (utf16 ''a''), JStr (utf16 ''b''), JStr (utf16 ''c''), JStr (utf16 ''d''),
                JStr (utf16 ''e'')])]),
      (utf16 ''grid'', JObj [(utf16 ''top'', JStr (utf16 ''10%'')), (utf16 ''left'', JNum 40)])]"

definition sample_radar :: obj where
  "sample_radar =
     [(utf16 ''legend'', JObj [(utf16 ''data'',
          JArr [JStr (utf16 ''a''), JStr (utf16 ''b''), JStr (utf16 ''c''), JStr (utf16 ''d'')])]),
      (utf16 ''radar'', JObj [(utf16 ''radius'', JStr (utf16 ''40%''))])]"

definition sample_parseInt :: "jstring \<Rightarrow> rat option" where
  "sample_parseInt s = (if s = utf16 ''10%'' then Some 10 else None)"

definition sample_ToNumber :: "json \<Rightarrow> rat option" where
  "sample_ToNumber v = None"


section \<open>The chart registry and the export: ChatMessageList (components/ChatMessageList.tsx)\<close>

text \<open>
  \<open>ChartInstanceRef\<close>. A rendering instance is named by the number of the
  \<open>echarts.init\<close> call that made it. The title is whatever \<open>config.title.text\<close> holds.
\<close>

record ChartInstanceRef =
  messageId :: jstring
  chart_instance :: nat
  title :: json

text \<open>\<open>chartInstancesRef.current\<close>, a \<open>Map\<close>: its entries in insertion order.\<close>

type_synonym chart_map = "(jstring \<times> ChartInstanceRef) list"

definition Map_set :: "jstring \<Rightarrow> ChartInstanceRef \<Rightarrow> chart_map \<Rightarrow> chart_map" where
  "Map_set k v m = upsert k v m"

definition Map_delete :: "jstring \<Rightarrow> chart_map \<Rightarrow> chart_map" where
  "Map_delete k m = filter (\<lambda>kv. fst kv \<noteq> k) m"

definition Map_values :: "chart_map \<Rightarrow> ChartInstanceRef list" where
  "Map_values m = map snd m"

text \<open>\<open>handleInstanceReady\<close> and \<open>handleInstanceDestroy\<close>, on the map.\<close>

definition handleInstanceReady :: "jstring \<Rightarrow> nat \<Rightarrow> obj \<Rightarrow> chart_map \<Rightarrow> chart_map" where
  "handleInstanceReady mid inst config m =
     Map_set mid
       \<lparr>messageId = mid, chart_instance = inst,
        title = js_or (member (map_of config (utf16 ''title'')) (utf16 ''text''))
                  (JStr chart_title_default)\<rparr> m"

definition handleInstanceDestroy :: "jstring \<Rightarrow> chart_map \<Rightarrow> chart_map" where
  "handleInstanceDestroy mid m = Map_delete mid m"

text \<open>
  The view: the map, the number of \<open>echarts.init\<close> calls so far, the instances disposed,
  and the \<open>setOption\<close> calls (instance and configuration). An instance is live from its
  \<open>init\<close> to its \<open>dispose\<close>; only instances that were made are disposed (\<open>sound\<close>).
\<close>

record view =
  chartInstances :: chart_map
  inits :: nat
  disposed :: "nat list"
  applied :: "(nat \<times> obj) list"

definition live :: "view \<Rightarrow> nat list" where
  "live v = filter (\<lambda>h. h \<notin> set (disposed v)) [0..<inits v]"

definition sound :: "view \<Rightarrow> bool" where
  "sound v = list_all (\<lambda>h. h < inits v) (disposed v)"

text \<open>
  The body of the first effect of \<open>MessageChart\<close>, with the component's
  \<open>chartInstanceRef\<close>: an instance is made and registered if the ref holds none, and the
  normalised configuration is applied to the instance of the ref. The chart is rendered
  only for an entry that has a configuration, so the early return is not taken.
\<close>

definition MessageChart_effect ::
  "(json \<Rightarrow> rat option) \<Rightarrow> (jstring \<Rightarrow> rat option) \<Rightarrow> jstring \<Rightarrow> obj \<Rightarrow> nat option \<times> view \<Rightarrow>
   nat option \<times> view" where
  "MessageChart_effect ToNumber parseInt mid config s =
     (case s of (chartInstanceRef, v) \<Rightarrow>
        (case chartInstanceRef of
           None \<Rightarrow>
             (Some (inits v),
              v\<lparr>chartInstances := handleInstanceReady mid (inits v) config (chartInstances v),
                inits := Suc (inits v),
                applied := applied v @ [(inits v, safeConfig_of ToNumber parseInt config)]\<rparr>)
         | Some h \<Rightarrow>
             (Some h, v\<lparr>applied := applied v @ [(h, safeConfig_of ToNumber parseInt config)]\<rparr>)))"

text \<open>
  The cleanup of the second effect: \<open>onInstanceDestroy\<close>, then \<open>dispose\<close> of the instance
  of the ref, if there is one, and the ref set to \<open>null\<close>.
\<close>

definition MessageChart_cleanup :: "jstring \<Rightarrow> nat option \<times> view \<Rightarrow> nat option \<times> view" where
  "MessageChart_cleanup mid s =
     (case s of (chartInstanceRef, v) \<Rightarrow>
        (None,
         v\<lparr>chartInstances := handleInstanceDestroy mid (chartInstances v),
           disposed := disposed v @ (case chartInstanceRef of Some h \<Rightarrow> [h] | None \<Rightarrow> [])\<rparr>))"

text \<open>
  When React runs them. \<open>MessageChart\<close> has no state and is rendered by \<open>ChatMessageItem\<close>
  alone, which hands it two new arrow functions for \<open>onInstanceReady\<close> and
  \<open>onInstanceDestroy\<close> at each of its renders. Both are dependencies: of the first effect
  (\<open>[config, messageId, onInstanceReady]\<close>) and of the second (\<open>[onInstanceDestroy]\<close>). So
  whenever the chart renders again, its entry having changed and still holding a
  configuration, React runs the cleanups of both effects (that of the first only removes the resize listener)
  and then the effects again: the cleanup above runs before the first effect at every
  re-run, not only when the chart leaves the page, and the first effect finds the ref
  empty each time. The branch of the first effect that keeps an instance is the guard of
  the source; no run below reaches it.
\<close>

definition MessageChart_mount ::
  "(json \<Rightarrow> rat option) \<Rightarrow> (jstring \<Rightarrow> rat option) \<Rightarrow> jstring \<Rightarrow> obj \<Rightarrow> view \<Rightarrow> nat option \<times> view" where
  "MessageChart_mount ToNumber parseInt mid config v =
     MessageChart_effect ToNumber parseInt mid config (None, v)"

definition MessageChart_rerender ::
  "(json \<Rightarrow> rat option) \<Rightarrow> (jstring \<Rightarrow> rat option) \<Rightarrow> jstring \<Rightarrow> obj \<Rightarrow> nat option \<times> view \<Rightarrow>
   nat option \<times> view" where
  "MessageChart_rerender ToNumber parseInt mid config s =
     MessageChart_effect ToNumber parseInt mid config (MessageChart_cleanup mid s)"

definition MessageChart_unmount :: "jstring \<Rightarrow> nat option \<times> view \<Rightarrow> nat option \<times> view" where
  "MessageChart_unmount mid s = MessageChart_cleanup mid s"

text \<open>
  \<open>exportAllCharts\<close>: the alert, if the map is empty, and the timers set, each with its
  delay in milliseconds and the record it will export. \<open>schedule\<close> is the \<open>forEach\<close> with
  its index.
\<close>

fun schedule :: "nat \<Rightarrow> ChartInstanceRef list \<Rightarrow> (nat \<times> ChartInstanceRef) list" where
  "schedule index [] = []"
| "schedule index (item # rest) = (index * 300, item) # schedule (Suc index) rest"

definition exportAllCharts :: "chart_map \<Rightarrow> jstring option \<times> (nat \<times> ChartInstanceRef) list" where
  "exportAllCharts m =
     (let instances = Map_values m
      in if length instances = 0 then (Some nothing_to_export, [])
         else (None, schedule 0 instances))"

text \<open>A view with nothing in it, and three sample records.\<close>

definition empty_view :: view where
  "empty_view = \<lparr>chartInstances = [], inits = 0, disposed = [], applied = []\<rparr>"

definition sample_charts :: chart_map where
  "sample_charts =
     handleInstanceReady (utf16 ''m1'') 0 sample_radar
       (handleInstanceReady (utf16 ''m3'') 2 sample_bar
          (handleInstanceReady (utf16 ''m2'') 1 sample_radar
             (handleInstanceReady (utf16 ''m1'') 0 sample_bar [])))"

section \<open>Verification\<close>



subsection \<open>The stream decoder\<close>

lemma split_newline_not_Nil: "split_newline s \<noteq> []"
  by (induction s) (auto split: list.splits)

lemma split_newline_append:
  "split_newline (x @ y) =
     butlast (split_newline x) @ split_newline (last (split_newline x) @ y)"
proof (induction x)
  case Nil
  show ?case by simp
next
  case (Cons c cs)
  show ?case
  proof (cases "c = newline")
    case True
    with Cons show ?thesis by (simp add: split_newline_not_Nil)
  next
    case False
    obtain l ls where s: "split_newline cs = l # ls"
      using split_newline_not_Nil [of cs] by (cases "split_newline cs") auto
    show ?thesis
    proof (cases ls)
      case Nil
      with False s Cons show ?thesis by simp
    next
      case (Cons l' ls')
      with False s Cons.IH show ?thesis by simp
    qed
  qed
qed

lemma split_newline_no_newline: "newline \<notin> set s \<Longrightarrow> split_newline s = [s]"
  by (induction s) (auto split: list.splits)

lemma last_split_newline: "newline \<notin> set (last (split_newline s))"
proof (induction s)
  case Nil
  show ?case by simp
next
  case (Cons c cs)
  obtain l ls where s: "split_newline cs = l # ls"
    using split_newline_not_Nil [of cs] by (cases "split_newline cs") auto
  with Cons show ?case by (cases ls) auto
qed

lemma split_newline_line:
  "newline \<notin> set l \<Longrightarrow> split_newline (l @ newline # r) = l # split_newline r"
  by (induction l) (auto split: list.splits)

lemma split_newline_cut:
  "split_newline (t1 @ newline # t2) = split_newline t1 @ split_newline t2"
proof -
  have "split_newline (t1 @ newline # t2) =
      butlast (split_newline t1) @ split_newline (last (split_newline t1) @ newline # t2)"
    by (rule split_newline_append)
  also have "\<dots> = butlast (split_newline t1) @ (last (split_newline t1) # split_newline t2)"
    by (simp add: split_newline_line last_split_newline)
  also have "\<dots> = split_newline t1 @ split_newline t2"
    by (simp add: split_newline_not_Nil)
  finally show ?thesis .
qed

lemma butlast_split_newline_tail:
  assumes "newline \<notin> set tail"
  shows "butlast (split_newline (t @ newline # tail)) = split_newline t"
  using assms
  by (simp add: split_newline_cut split_newline_no_newline butlast_append)

lemma lines_of_frame:
  "newline \<notin> set l \<Longrightarrow> butlast (split_newline (l @ [newline])) = [l]"
  using butlast_split_newline_tail [of "[]" l] by (simp add: split_newline_no_newline)

lemma text_or_last: "xs \<noteq> [] \<Longrightarrow> text_or (Some (last xs)) [] = last xs"
  by (cases "last xs") (simp_all add: text_or_def)

lemma decode_append:
  "decode d (a @ b) =
     (let (t1, d1) = decode d a; (t2, d2) = decode d1 b in (t1 @ t2, d2))"
  by (induction a arbitrary: d) (simp_all add: split_beta Let_def)

lemma decode_text_concat: "decode_text d chunks = fst (decode d (concat chunks))"
  by (induction chunks arbitrary: d) (simp_all add: decode_append split_beta Let_def)

lemma read_loop_lines:
  "newline \<notin> set buffer \<Longrightarrow>
   read_loop p d buffer chunks =
     concat (map (process_line p)
       (butlast (split_newline (buffer @ decode_text d chunks))))"
proof (induction chunks arbitrary: d buffer)
  case Nil
  then show ?case by (simp add: split_newline_no_newline)
next
  case (Cons v rest)
  obtain t d' where d: "decode d v = (t, d')" by (cases "decode d v")
  let ?S = "split_newline (buffer @ t)"
  have ne: "?S \<noteq> []" by (rule split_newline_not_Nil)
  have nl: "newline \<notin> set (last ?S)" by (rule last_split_newline)
  have step: "read_loop p d buffer (v # rest) =
      concat (map (process_line p) (butlast ?S)) @ read_loop p d' (last ?S) rest"
    using d ne by (simp add: pop_def Let_def text_or_last)
  have "split_newline (buffer @ decode_text d (v # rest)) =
      butlast ?S @ split_newline (last ?S @ decode_text d' rest)"
    using d split_newline_append [of "buffer @ t" "decode_text d' rest"] by simp
  then have "butlast (split_newline (buffer @ decode_text d (v # rest))) =
      butlast ?S @ butlast (split_newline (last ?S @ decode_text d' rest))"
    by (simp add: butlast_append split_newline_not_Nil)
  with step Cons.IH [OF nl, of d'] show ?case by simp
qed

lemma stream_callbacks:
  "fst (sendChatMessageStream p (Body chunks e)) =
     concat (map (process_line p)
       (butlast (split_newline (fst (decode new_TextDecoder (concat chunks))))))"
  using read_loop_lines [of "[]" p new_TextDecoder chunks]
  by (simp add: sendChatMessageStream_def decode_text_concat)

lemma take3: "i \<le> j \<Longrightarrow> take i F @ drop i (take j F) @ drop j F = F"
proof -
  assume "i \<le> j"
  then have "take i (take j F) = take i F" by (simp add: min_def)
  then have "take i F @ drop i (take j F) = take j F"
    using append_take_drop_id [of i "take j F"] by simp
  then have "(take i F @ drop i (take j F)) @ drop j F = F" by simp
  then show ?thesis by simp
qed

lemma decode_ascii:
  "bytes_needed d = 0 \<Longrightarrow> list_all (\<lambda>b. b \<le> 0x7F) bs \<Longrightarrow>
   decode d bs = (map ucast bs, if bs = [] then d else d\<lparr>BOM_seen := True\<rparr>)"
proof (induction bs arbitrary: d)
  case Nil
  show ?case by simp
next
  case (Cons b bs)
  from Cons.prems have b: "b \<le> 0x7F" and bs: "list_all (\<lambda>b. b \<le> 0x7F) bs"
    by simp_all
  from b have u: "unat b \<le> 127"
    by (simp add: word_le_nat_alt)
  have h: "utf8_handler d b = ([unat b], d)"
    using Cons.prems(1) b by (simp add: utf8_handler_def utf8_lead_def)
  have s: "serialize d [unat b] = ([ucast b], d\<lparr>BOM_seen := True\<rparr>)"
    using u by (simp add: utf16_units_def)
  have n: "bytes_needed (d\<lparr>BOM_seen := True\<rparr>) = 0"
    using Cons.prems(1) by simp
  show ?case
    using Cons.IH [OF n bs] h s by (cases bs) simp_all
qed

lemma decode_ascii_fresh:
  "list_all (\<lambda>b. b \<le> 0x7F) bs \<Longrightarrow> fst (decode new_TextDecoder bs) = map ucast bs"
  by (simp add: decode_ascii new_TextDecoder_def)

lemma decode_samples:
  "fst (decode new_TextDecoder chunk_hi_bytes) = frame chunk_hi_json"
  "fst (decode new_TextDecoder (chunk_hi_bytes @ ascii_bytes ''data: {'')) =
     (utf16 ''data: '' @ chunk_hi_json) @ newline # utf16 ''data: {''"
  "fst (decode new_TextDecoder tolerance_bytes) = tolerance_text"
  "fst (decode new_TextDecoder (done_bytes @ chunk_hi_bytes)) =
     (utf16 ''data: '' @ done_json) @ newline # frame chunk_hi_json"
  "fst (decode new_TextDecoder (done_bytes @ chunk_hi_bytes @ error_bytes @ done_bytes)) =
     frame done_json @ frame chunk_hi_json @ frame error_json @ frame done_json"
  by (subst decode_ascii_fresh;
      simp add: chunk_hi_bytes_def done_bytes_def error_bytes_def
        tolerance_bytes_def tolerance_text_def ascii_bytes_def frame_def chunk_hi_json_def
        done_json_def error_json_def utf16_def newline_def)+

lemma decode_sample_ni:
  "fst (decode new_TextDecoder chunk_ni_bytes) = frame chunk_ni_json"
  by (simp add: chunk_ni_bytes_def ascii_bytes_def frame_def chunk_ni_json_def utf16_def
      newline_def new_TextDecoder_def utf8_handler_def utf8_lead_def utf16_units_def reset_def)

lemma no_newline_samples:
  "newline \<notin> set (utf16 ''data: '' @ chunk_hi_json)"
  "newline \<notin> set (utf16 ''data: '' @ done_json)"
  "newline \<notin> set (utf16 ''data: '' @ error_json)"
  "newline \<notin> set (utf16 ''data: not-json'')"
  "newline \<notin> set (utf16 ''data: '' @ chunk_ni_json)"
  "newline \<notin> set (utf16 ''data: {'')"
  by (simp_all add: chunk_hi_json_def done_json_def error_json_def chunk_ni_json_def utf16_def
      newline_def)

lemma process_blank: "process_line p [] = []"
  by (simp add: process_line_def utf16_def)

lemma process_not_json:
  "p (utf16 ''not-json'') = None \<Longrightarrow> process_line p (utf16 ''data: not-json'') = []"
  by (simp add: process_line_def utf16_def trim_def is_ws_def)

lemma process_done:
  "p done_json = Some done_event \<Longrightarrow>
   process_line p (utf16 ''data: '' @ done_json) = [OnDone None]"
  by (simp add: process_line_def truthy_text_def text_or_def done_json_def done_event_def
      utf16_def trim_def is_ws_def)

lemma process_chunk_hi:
  "p chunk_hi_json = Some chunk_hi_event \<Longrightarrow>
   process_line p (utf16 ''data: '' @ chunk_hi_json) = [OnChunk (utf16 ''hi'')]"
  by (simp add: process_line_def truthy_text_def text_or_def chunk_hi_json_def chunk_hi_event_def
      utf16_def trim_def is_ws_def)

lemma process_chunk_ni:
  "p chunk_ni_json = Some chunk_ni_event \<Longrightarrow>
   process_line p (utf16 ''data: '' @ chunk_ni_json) = [OnChunk [0x4F60]]"
  by (simp add: process_line_def truthy_text_def text_or_def chunk_ni_json_def chunk_ni_event_def
      utf16_def trim_def is_ws_def)

lemma process_error:
  "p error_json = Some error_event \<Longrightarrow>
   process_line p (utf16 ''data: '' @ error_json) = [OnError (utf16 ''boom'')]"
  by (simp add: process_line_def truthy_text_def text_or_def error_json_def error_event_def
      utf16_def trim_def is_ws_def)

lemma sample_parse_values:
  "sample_parse chunk_hi_json = Some chunk_hi_event"
  "sample_parse done_json = Some done_event"
  "sample_parse error_json = Some error_event"
  "sample_parse chunk_ni_json = Some chunk_ni_event"
  "sample_parse (utf16 ''not-json'') = None"
  by (simp_all add: sample_parse_def chunk_hi_json_def done_json_def error_json_def
      chunk_ni_json_def utf16_def)

lemma frame_callbacks:
  assumes "fst (decode new_TextDecoder (concat chunks)) = frame js"
    and "newline \<notin> set (utf16 ''data: '' @ js)"
  shows "fst (sendChatMessageStream p (Body chunks e)) = process_line p (utf16 ''data: '' @ js)"
proof -
  have "butlast (split_newline (frame js)) = [utf16 ''data: '' @ js]"
    using lines_of_frame [OF assms(2)] by (simp add: frame_def)
  with assms(1) show ?thesis
    by (simp add: stream_callbacks)
qed

text \<open>
  Claim C1. The callbacks of \<open>sendChatMessageStream\<close> depend on the concatenation of the
  chunks only, not on where the chunks are cut: they are the callbacks of the complete
  lines of the decoded text, in order. The frame \<open>data: {"type":"chunk","content":"hi"}\n\<close>
  cut at any two places \<open>i \<le> j\<close> gives the one callback \<open>onChunk("hi")\<close>, and what follows
  the last newline of the stream gives no callback.
\<close>

theorem stream_partition_independent:
  "(concat chunks1 = concat chunks2 \<longrightarrow>
      sendChatMessageStream p (Body chunks1 e) = sendChatMessageStream p (Body chunks2 e))
   \<and> fst (sendChatMessageStream p (Body chunks e)) =
        concat (map (process_line p)
          (butlast (split_newline (fst (decode new_TextDecoder (concat chunks))))))
   \<and> (i \<le> j \<and> p chunk_hi_json = Some chunk_hi_event \<longrightarrow>
        fst (sendChatMessageStream p
               (Body [take i chunk_hi_bytes, drop i (take j chunk_hi_bytes), drop j chunk_hi_bytes] e)) =
          [OnChunk (utf16 ''hi'')])
   \<and> (newline \<notin> set tail \<and> fst (decode new_TextDecoder (concat chunks)) = t @ newline # tail \<longrightarrow>
        fst (sendChatMessageStream p (Body chunks e)) =
          concat (map (process_line p) (split_newline t)))"
proof (intro conjI impI)
  assume "concat chunks1 = concat chunks2"
  then have "fst (sendChatMessageStream p (Body chunks1 e)) =
      fst (sendChatMessageStream p (Body chunks2 e))"
    by (simp add: stream_callbacks)
  moreover have "snd (sendChatMessageStream p (Body chunks1 e)) =
      snd (sendChatMessageStream p (Body chunks2 e))"
    by (simp add: sendChatMessageStream_def)
  ultimately show "sendChatMessageStream p (Body chunks1 e) =
      sendChatMessageStream p (Body chunks2 e)"
    by (rule prod_eqI)
next
  show "fst (sendChatMessageStream p (Body chunks e)) =
      concat (map (process_line p)
        (butlast (split_newline (fst (decode new_TextDecoder (concat chunks))))))"
    by (rule stream_callbacks)
next
  let ?F = chunk_hi_bytes
  assume a: "i \<le> j \<and> p chunk_hi_json = Some chunk_hi_event"
  then have c: "concat [take i ?F, drop i (take j ?F), drop j ?F] = ?F"
    by (simp add: take3)
  have "fst (sendChatMessageStream p (Body [take i ?F, drop i (take j ?F), drop j ?F] e)) =
      process_line p (utf16 ''data: '' @ chunk_hi_json)"
    by (rule frame_callbacks) (simp_all only: c decode_samples no_newline_samples not_False_eq_True)
  with a show "fst (sendChatMessageStream p
      (Body [take i ?F, drop i (take j ?F), drop j ?F] e)) = [OnChunk (utf16 ''hi'')]"
    by (simp add: process_chunk_hi)
next
  assume "newline \<notin> set tail \<and> fst (decode new_TextDecoder (concat chunks)) = t @ newline # tail"
  then show "fst (sendChatMessageStream p (Body chunks e)) =
      concat (map (process_line p) (split_newline t))"
    by (simp add: stream_callbacks butlast_split_newline_tail)
qed

text \<open>
  The hypotheses of C1 at the sample frames: the frame cut after 9 bytes, cut after 3
  and 20 bytes, and followed by the unfinished line \<open>data: {\<close>; and the frame whose
  content is U+4F60, cut between the second and the third byte of that character.
\<close>

theorem stream_partition_independent_witness:
  "concat [take 9 chunk_hi_bytes, drop 9 chunk_hi_bytes] = concat [chunk_hi_bytes]
   \<and> sendChatMessageStream sample_parse
        (Body [take 9 chunk_hi_bytes, drop 9 chunk_hi_bytes] EndOfStream) =
      sendChatMessageStream sample_parse (Body [chunk_hi_bytes] EndOfStream)
   \<and> (3::nat) \<le> 20
   \<and> sample_parse chunk_hi_json = Some chunk_hi_event
   \<and> fst (sendChatMessageStream sample_parse
        (Body [take 3 chunk_hi_bytes, drop 3 (take 20 chunk_hi_bytes), drop 20 chunk_hi_bytes]
           EndOfStream)) = [OnChunk (utf16 ''hi'')]
   \<and> newline \<notin> set (utf16 ''data: {'')
   \<and> fst (sendChatMessageStream sample_parse
        (Body [chunk_hi_bytes, ascii_bytes ''data: {''] EndOfStream)) = [OnChunk (utf16 ''hi'')]
   \<and> drop 33 (take 35 chunk_ni_bytes) = [0xE4, 0xBD]
   \<and> fst (sendChatMessageStream sample_parse
        (Body [take 35 chunk_ni_bytes, drop 35 chunk_ni_bytes] EndOfStream)) = [OnChunk [0x4F60]]"
proof -
  have h1: "concat [take 9 chunk_hi_bytes, drop 9 chunk_hi_bytes] = concat [chunk_hi_bytes]"
    by simp
  have h2: "newline \<notin> set (utf16 ''data: {'')"
    by (rule no_newline_samples)
  have h3: "fst (decode new_TextDecoder (concat [chunk_hi_bytes, ascii_bytes ''data: {''])) =
      (utf16 ''data: '' @ chunk_hi_json) @ newline # utf16 ''data: {''"
    using decode_samples(2) by simp
  have h4: "(3::nat) \<le> 20" by simp
  have h5: "drop 33 (take 35 chunk_ni_bytes) = [0xE4, 0xBD]"
    by (simp add: chunk_ni_bytes_def ascii_bytes_def)
  have h6: "concat [take 35 chunk_ni_bytes, drop 35 chunk_ni_bytes] = concat [chunk_ni_bytes]"
    by simp
  note T = stream_partition_independent [of "[take 9 chunk_hi_bytes, drop 9 chunk_hi_bytes]"
      "[chunk_hi_bytes]" sample_parse EndOfStream "[chunk_hi_bytes, ascii_bytes ''data: {'']"
      3 20 "utf16 ''data: {''" "utf16 ''data: '' @ chunk_hi_json"]
  note U = stream_partition_independent [of "[take 35 chunk_ni_bytes, drop 35 chunk_ni_bytes]"
      "[chunk_ni_bytes]" sample_parse EndOfStream "[chunk_ni_bytes]"
      3 20 "utf16 ''data: {''" "utf16 ''data: '' @ chunk_hi_json"]
  have t1: "sendChatMessageStream sample_parse
        (Body [take 9 chunk_hi_bytes, drop 9 chunk_hi_bytes] EndOfStream) =
      sendChatMessageStream sample_parse (Body [chunk_hi_bytes] EndOfStream)"
    using T h1 by blast
  have t3: "fst (sendChatMessageStream sample_parse
        (Body [take 3 chunk_hi_bytes, drop 3 (take 20 chunk_hi_bytes), drop 20 chunk_hi_bytes]
           EndOfStream)) = [OnChunk (utf16 ''hi'')]"
    using T h4 sample_parse_values(1) by blast
  have "fst (sendChatMessageStream sample_parse
        (Body [chunk_hi_bytes, ascii_bytes ''data: {''] EndOfStream)) =
      concat (map (process_line sample_parse) (split_newline (utf16 ''data: '' @ chunk_hi_json)))"
    using T h2 h3 by blast
  then have t4: "fst (sendChatMessageStream sample_parse
        (Body [chunk_hi_bytes, ascii_bytes ''data: {''] EndOfStream)) = [OnChunk (utf16 ''hi'')]"
    by (simp add: split_newline_no_newline [OF no_newline_samples(1)] process_chunk_hi
        sample_parse_values)
  from U h6 have "sendChatMessageStream sample_parse
        (Body [take 35 chunk_ni_bytes, drop 35 chunk_ni_bytes] EndOfStream) =
      sendChatMessageStream sample_parse (Body [chunk_ni_bytes] EndOfStream)"
    by blast
  moreover have "fst (sendChatMessageStream sample_parse (Body [chunk_ni_bytes] EndOfStream)) =
      process_line sample_parse (utf16 ''data: '' @ chunk_ni_json)"
    by (rule frame_callbacks) (simp_all only: concat.simps append_Nil2 decode_sample_ni
        no_newline_samples not_False_eq_True)
  ultimately have t5: "fst (sendChatMessageStream sample_parse
        (Body [take 35 chunk_ni_bytes, drop 35 chunk_ni_bytes] EndOfStream)) = [OnChunk [0x4F60]]"
    by (simp add: process_chunk_ni sample_parse_values)
  from h1 t1 h4 sample_parse_values(1) t3 h2 t4 h5 t5 show ?thesis by blast
qed

lemma split_tolerance_text:
  "butlast (split_newline tolerance_text) =
     [utf16 ''data: '' @ chunk_hi_json, [], utf16 ''data: not-json'', utf16 ''data: '' @ done_json]"
  by (simp add: tolerance_text_def frame_def chunk_hi_json_def done_json_def utf16_def newline_def)

text \<open>
  Claim C2. What one complete line does. A line without the prefix \<open>data: \<close>, with a
  blank remainder or with a remainder that does not parse invokes nothing. For a parsed
  event: type \<open>chunk\<close> invokes \<open>onChunk(content)\<close> exactly when the content is a
  non-empty text; type \<open>done\<close> invokes \<open>onDone\<close> with the configuration, or with
  \<open>null\<close> when there is none; type \<open>error\<close> invokes \<open>onError\<close> with the message, or
  with the default text when there is none (the empty message counts as none, as the
  empty content does); any other type invokes nothing. A blank line and the line
  \<open>data: not-json\<close> between two valid frames leave exactly the two callbacks of the
  frames.
\<close>

theorem frame_dispatch:
  "(\<not> prefix (utf16 ''data: '') line \<or> trim (drop 6 line) = [] \<or> p (drop 6 line) = None \<longrightarrow>
      process_line p line = [])
   \<and> (prefix (utf16 ''data: '') line \<and> trim (drop 6 line) \<noteq> [] \<and> p (drop 6 line) = Some ev \<longrightarrow>
        (ev_type ev = Some (utf16 ''chunk'') \<longrightarrow>
           process_line p line =
             (case ev_content ev of
                Some c \<Rightarrow> if c \<noteq> [] then [OnChunk c] else []
              | None \<Rightarrow> []))
      \<and> (ev_type ev = Some (utf16 ''done'') \<longrightarrow>
           process_line p line =
             [OnDone (case ev_chart_config ev of
                        Value cfg \<Rightarrow> Some cfg | Null \<Rightarrow> None | Undefined \<Rightarrow> None)])
      \<and> (ev_type ev = Some (utf16 ''error'') \<longrightarrow>
           process_line p line =
             [OnError (case ev_message ev of
                         Some m \<Rightarrow> if m \<noteq> [] then m else unknown_error
                       | None \<Rightarrow> unknown_error)])
      \<and> (ev_type ev \<noteq> Some (utf16 ''chunk'') \<and> ev_type ev \<noteq> Some (utf16 ''done'')
           \<and> ev_type ev \<noteq> Some (utf16 ''error'') \<longrightarrow> process_line p line = []))
   \<and> (fst (decode new_TextDecoder (concat chunks)) = tolerance_text
        \<and> p chunk_hi_json = Some chunk_hi_event \<and> p done_json = Some done_event
        \<and> p (utf16 ''not-json'') = None \<longrightarrow>
        fst (sendChatMessageStream p (Body chunks e)) = [OnChunk (utf16 ''hi''), OnDone None])"
proof (intro conjI impI)
  assume "\<not> prefix (utf16 ''data: '') line \<or> trim (drop 6 line) = [] \<or> p (drop 6 line) = None"
  then show "process_line p line = []"
    by (auto simp: process_line_def Let_def)
next
  assume a: "prefix (utf16 ''data: '') line \<and> trim (drop 6 line) \<noteq> [] \<and> p (drop 6 line) = Some ev"
    and t: "ev_type ev = Some (utf16 ''chunk'')"
  have ne: "utf16 ''chunk'' \<noteq> utf16 ''done''" "utf16 ''chunk'' \<noteq> utf16 ''error''"
    by (simp_all add: utf16_def)
  from a t ne show "process_line p line =
      (case ev_content ev of Some c \<Rightarrow> if c \<noteq> [] then [OnChunk c] else [] | None \<Rightarrow> [])"
    by (simp add: process_line_def truthy_text_def text_or_def Let_def
        split: option.splits list.splits)
next
  assume a: "prefix (utf16 ''data: '') line \<and> trim (drop 6 line) \<noteq> [] \<and> p (drop 6 line) = Some ev"
    and t: "ev_type ev = Some (utf16 ''done'')"
  have ne: "utf16 ''done'' \<noteq> utf16 ''chunk''"
    by (simp add: utf16_def)
  from a t ne show "process_line p line =
      [OnDone (case ev_chart_config ev of Value cfg \<Rightarrow> Some cfg | Null \<Rightarrow> None | Undefined \<Rightarrow> None)]"
    by (simp add: process_line_def Let_def split: nullable.splits)
next
  assume a: "prefix (utf16 ''data: '') line \<and> trim (drop 6 line) \<noteq> [] \<and> p (drop 6 line) = Some ev"
    and t: "ev_type ev = Some (utf16 ''error'')"
  have ne: "utf16 ''error'' \<noteq> utf16 ''chunk''" "utf16 ''error'' \<noteq> utf16 ''done''"
    by (simp_all add: utf16_def)
  from a t ne show "process_line p line =
      [OnError (case ev_message ev of
                  Some m \<Rightarrow> if m \<noteq> [] then m else unknown_error | None \<Rightarrow> unknown_error)]"
    by (simp add: process_line_def text_or_def Let_def split: option.splits list.splits)
next
  assume a: "prefix (utf16 ''data: '') line \<and> trim (drop 6 line) \<noteq> [] \<and> p (drop 6 line) = Some ev"
    and t: "ev_type ev \<noteq> Some (utf16 ''chunk'') \<and> ev_type ev \<noteq> Some (utf16 ''done'')
           \<and> ev_type ev \<noteq> Some (utf16 ''error'')"
  then show "process_line p line = []"
    by (simp add: process_line_def Let_def)
next
  assume a: "fst (decode new_TextDecoder (concat chunks)) = tolerance_text
        \<and> p chunk_hi_json = Some chunk_hi_event \<and> p done_json = Some done_event
        \<and> p (utf16 ''not-json'') = None"
  then have "fst (sendChatMessageStream p (Body chunks e)) =
      concat (map (process_line p) (butlast (split_newline tolerance_text)))"
    by (simp add: stream_callbacks)
  also have "\<dots> = [OnChunk (utf16 ''hi''), OnDone None]"
    using a by (simp only: split_tolerance_text)
      (simp add: process_chunk_hi process_done process_blank process_not_json)
  finally show "fst (sendChatMessageStream p (Body chunks e)) =
      [OnChunk (utf16 ''hi''), OnDone None]" .
qed

lemma sample_lines:
  "prefix (utf16 ''data: '') (utf16 ''data: '' @ js)"
  "drop 6 (utf16 ''data: '' @ js) = js"
  "trim chunk_hi_json \<noteq> []" "trim done_json \<noteq> []" "trim error_json \<noteq> []"
  "\<not> prefix (utf16 ''data: '') (utf16 ''event: ping'')"
  by (simp_all add: utf16_def trim_def is_ws_def chunk_hi_json_def done_json_def error_json_def)

lemma sample_event_types:
  "ev_type chunk_hi_event = Some (utf16 ''chunk'')" "ev_content chunk_hi_event = Some (utf16 ''hi'')"
  "ev_type done_event = Some (utf16 ''done'')" "ev_chart_config done_event = Undefined"
  "ev_type error_event = Some (utf16 ''error'')" "ev_message error_event = Some (utf16 ''boom'')"
  by (simp_all add: chunk_hi_event_def done_event_def error_event_def)

text \<open>
  The hypotheses of C2 at the sample lines: a chunk, a done and an error frame, a line
  without the prefix, the line \<open>data: not-json\<close>, and the stream with the blank line and
  the unparsable line between two frames, delivered in two chunks.
\<close>

theorem frame_dispatch_witness:
  "process_line sample_parse (utf16 ''data: '' @ chunk_hi_json) = [OnChunk (utf16 ''hi'')]
   \<and> process_line sample_parse (utf16 ''data: '' @ done_json) = [OnDone None]
   \<and> process_line sample_parse (utf16 ''data: '' @ error_json) = [OnError (utf16 ''boom'')]
   \<and> process_line sample_parse (utf16 ''event: ping'') = []
   \<and> process_line sample_parse (utf16 ''data: not-json'') = []
   \<and> fst (sendChatMessageStream sample_parse
        (Body [take 40 tolerance_bytes, drop 40 tolerance_bytes] EndOfStream)) =
       [OnChunk (utf16 ''hi''), OnDone None]"
proof -
  have hi: "utf16 ''hi'' \<noteq> []" "utf16 ''boom'' \<noteq> []" by (simp_all add: utf16_def)
  have dt: "fst (decode new_TextDecoder (concat [take 40 tolerance_bytes, drop 40 tolerance_bytes])) =
      tolerance_text"
    using decode_samples(3) by simp
  have c: "process_line sample_parse (utf16 ''data: '' @ chunk_hi_json) = [OnChunk (utf16 ''hi'')]"
    using frame_dispatch [of "utf16 ''data: '' @ chunk_hi_json" sample_parse chunk_hi_event
        "[]" EndOfStream]
      sample_parse_values sample_lines sample_event_types hi
    by simp
  have d: "process_line sample_parse (utf16 ''data: '' @ done_json) = [OnDone None]"
    using frame_dispatch [of "utf16 ''data: '' @ done_json" sample_parse done_event
        "[]" EndOfStream]
      sample_parse_values sample_lines sample_event_types
    by simp
  have e: "process_line sample_parse (utf16 ''data: '' @ error_json) = [OnError (utf16 ''boom'')]"
    using frame_dispatch [of "utf16 ''data: '' @ error_json" sample_parse error_event
        "[]" EndOfStream]
      sample_parse_values sample_lines sample_event_types hi
    by simp
  have n: "process_line sample_parse (utf16 ''event: ping'') = []"
    using frame_dispatch [of "utf16 ''event: ping''" sample_parse chunk_hi_event
        "[]" EndOfStream] sample_lines
    by blast
  have j: "process_line sample_parse (utf16 ''data: not-json'') = []"
    using frame_dispatch [of "utf16 ''data: '' @ utf16 ''not-json''" sample_parse chunk_hi_event
        "[]" EndOfStream]
      sample_parse_values sample_lines
    by (simp add: utf16_def)
  have t: "fst (sendChatMessageStream sample_parse
        (Body [take 40 tolerance_bytes, drop 40 tolerance_bytes] EndOfStream)) =
       [OnChunk (utf16 ''hi''), OnDone None]"
    using frame_dispatch [of "[]" sample_parse chunk_hi_event
        "[take 40 tolerance_bytes, drop 40 tolerance_bytes]" EndOfStream]
      sample_parse_values dt
    by blast
  from c d e n j t show ?thesis by blast
qed

text \<open>
  Claim C10. The loop has no exit at a terminal frame and keeps no state between lines
  but the buffer: the callbacks of a stream are those of the lines before any newline
  followed by those of the lines after it. A done frame followed by a chunk frame, an
  error frame and a second done frame invokes all four callbacks: \<open>onChunk\<close> and
  \<open>onError\<close> after \<open>onDone\<close>, and \<open>onDone\<close> twice.
\<close>

theorem no_stop_at_terminal_frame:
  "(fst (decode new_TextDecoder (concat chunks)) = t1 @ newline # t2 \<longrightarrow>
      fst (sendChatMessageStream p (Body chunks e)) =
        concat (map (process_line p) (split_newline t1))
        @ concat (map (process_line p) (butlast (split_newline t2))))
   \<and> (fst (decode new_TextDecoder (concat chunks)) =
          frame done_json @ frame chunk_hi_json @ frame error_json @ frame done_json
        \<and> p chunk_hi_json = Some chunk_hi_event \<and> p done_json = Some done_event
        \<and> p error_json = Some error_event \<longrightarrow>
        fst (sendChatMessageStream p (Body chunks e)) =
          [OnDone None, OnChunk (utf16 ''hi''), OnError (utf16 ''boom''), OnDone None])"
proof (intro conjI impI)
  assume "fst (decode new_TextDecoder (concat chunks)) = t1 @ newline # t2"
  then show "fst (sendChatMessageStream p (Body chunks e)) =
      concat (map (process_line p) (split_newline t1))
      @ concat (map (process_line p) (butlast (split_newline t2)))"
    by (simp add: stream_callbacks split_newline_cut butlast_append split_newline_not_Nil)
next
  assume a: "fst (decode new_TextDecoder (concat chunks)) =
              frame done_json @ frame chunk_hi_json @ frame error_json @ frame done_json
            \<and> p chunk_hi_json = Some chunk_hi_event \<and> p done_json = Some done_event
            \<and> p error_json = Some error_event"
  have s: "butlast (split_newline
        (frame done_json @ frame chunk_hi_json @ frame error_json @ frame done_json)) =
      [utf16 ''data: '' @ done_json, utf16 ''data: '' @ chunk_hi_json,
       utf16 ''data: '' @ error_json, utf16 ''data: '' @ done_json]"
    by (simp add: frame_def chunk_hi_json_def done_json_def error_json_def utf16_def newline_def)
  from a have "fst (sendChatMessageStream p (Body chunks e)) =
      concat (map (process_line p) (butlast (split_newline
        (frame done_json @ frame chunk_hi_json @ frame error_json @ frame done_json))))"
    by (simp add: stream_callbacks)
  also have "\<dots> = [OnDone None, OnChunk (utf16 ''hi''), OnError (utf16 ''boom''), OnDone None]"
    using a by (simp only: s) (simp add: process_chunk_hi process_done process_error)
  finally show "fst (sendChatMessageStream p (Body chunks e)) =
      [OnDone None, OnChunk (utf16 ''hi''), OnError (utf16 ''boom''), OnDone None]" .
qed

text \<open>
  The hypotheses of C10 at the sample stream: a done frame followed by further frames,
  delivered in two chunks.
\<close>

theorem no_stop_at_terminal_frame_witness:
  "fst (sendChatMessageStream sample_parse
      (Body [done_bytes, chunk_hi_bytes] EndOfStream)) =
     [OnDone None, OnChunk (utf16 ''hi'')]
   \<and> fst (sendChatMessageStream sample_parse
      (Body [done_bytes @ take 7 chunk_hi_bytes, drop 7 chunk_hi_bytes @ error_bytes @ done_bytes]
         EndOfStream)) =
     [OnDone None, OnChunk (utf16 ''hi''), OnError (utf16 ''boom''), OnDone None]"
proof -
  have l1: "split_newline (utf16 ''data: '' @ done_json) = [utf16 ''data: '' @ done_json]"
    by (rule split_newline_no_newline [OF no_newline_samples(2)])
  have l2: "butlast (split_newline (frame chunk_hi_json)) = [utf16 ''data: '' @ chunk_hi_json]"
    using lines_of_frame [OF no_newline_samples(1)] by (simp add: frame_def)
  have d1: "fst (decode new_TextDecoder (concat [done_bytes, chunk_hi_bytes])) =
      (utf16 ''data: '' @ done_json) @ newline # frame chunk_hi_json"
    using decode_samples(4) by simp
  have d2: "fst (decode new_TextDecoder (concat [done_bytes @ take 7 chunk_hi_bytes,
        drop 7 chunk_hi_bytes @ error_bytes @ done_bytes])) =
      frame done_json @ frame chunk_hi_json @ frame error_json @ frame done_json"
  proof -
    have "concat [done_bytes @ take 7 chunk_hi_bytes,
        drop 7 chunk_hi_bytes @ error_bytes @ done_bytes] =
        done_bytes @ (take 7 chunk_hi_bytes @ drop 7 chunk_hi_bytes) @ error_bytes @ done_bytes"
      by simp
    then show ?thesis
      by (simp only: append_take_drop_id decode_samples(5))
  qed
  have "fst (sendChatMessageStream sample_parse
      (Body [done_bytes, chunk_hi_bytes] EndOfStream)) =
      concat (map (process_line sample_parse) (split_newline (utf16 ''data: '' @ done_json)))
      @ concat (map (process_line sample_parse) (butlast (split_newline (frame chunk_hi_json))))"
    using no_stop_at_terminal_frame [of "[done_bytes, chunk_hi_bytes]"
        "utf16 ''data: '' @ done_json" "frame chunk_hi_json" sample_parse EndOfStream] d1
    by blast
  then have a: "fst (sendChatMessageStream sample_parse
      (Body [done_bytes, chunk_hi_bytes] EndOfStream)) = [OnDone None, OnChunk (utf16 ''hi'')]"
    by (simp only: l1 l2) (simp add: process_chunk_hi process_done sample_parse_values)
  have b: "fst (sendChatMessageStream sample_parse
      (Body [done_bytes @ take 7 chunk_hi_bytes, drop 7 chunk_hi_bytes @ error_bytes @ done_bytes]
         EndOfStream)) =
     [OnDone None, OnChunk (utf16 ''hi''), OnError (utf16 ''boom''), OnDone None]"
    using no_stop_at_terminal_frame [of
        "[done_bytes @ take 7 chunk_hi_bytes, drop 7 chunk_hi_bytes @ error_bytes @ done_bytes]"
        "[]" "[]" sample_parse EndOfStream]
      d2 sample_parse_values
    by blast
  from a b show ?thesis by blast
qed


subsection \<open>Data-source tokens\<close>

lemma foldl_push_sheets:
  "foldl (\<lambda>ids sheet. ids @ [f @ utf16 '':'' @ sheet]) acc sheets =
     acc @ map (\<lambda>sheet. f @ utf16 '':'' @ sheet) sheets"
  by (induction sheets arbitrary: acc) simp_all

lemma push_file_append:
  "push_file fid sel acc info =
     acc @ (if sel info = [] then [fid info]
            else map (\<lambda>sheet. fid info @ utf16 '':'' @ sheet) (sel info))"
  by (simp add: push_file_def foldl_push_sheets)

lemma foldl_push_file:
  "foldl (push_file fid sel) acc infos = acc @ buildTokenSet fid sel infos"
proof (induction infos arbitrary: acc)
  case Nil
  show ?case by (simp add: buildTokenSet_def)
next
  case (Cons info infos)
  have "foldl (push_file fid sel) acc (info # infos) =
      foldl (push_file fid sel) (push_file fid sel acc info) infos"
    by simp
  also have "\<dots> = push_file fid sel acc info @ buildTokenSet fid sel infos"
    by (rule Cons.IH)
  also have "\<dots> = acc @ buildTokenSet fid sel (info # infos)"
    by (simp add: push_file_append buildTokenSet_def)
  finally show ?case .
qed

text \<open>
  Claim C4. The recomputed token list is, file by file in file order, one token
  \<open>fileId:sheet\<close> per selected sheet in selection order, or the bare \<open>fileId\<close> for a file
  with no selected sheet; \<open>handleSheetsChange\<close> recomputes it from the whole updated list.
  A file with no selection gives \<open>[fileId]\<close>, a file with the sheets A and B gives
  \<open>[fileId:A, fileId:B]\<close>.
\<close>

theorem recompute_ids_tokens:
  "recompute_ids fid sel files = buildTokenSet fid sel files
   \<and> recompute_ids fid sel (files @ files') = recompute_ids fid sel files @ recompute_ids fid sel files'
   \<and> recompute_ids file_id selectedSheets
        [\<lparr>file_id = f, filename = n, sheet_names = ss, selectedSheets = []\<rparr>] = [f]
   \<and> recompute_ids file_id selectedSheets
        [\<lparr>file_id = f, filename = n, sheet_names = ss, selectedSheets = [a, b]\<rparr>] =
        [f @ utf16 '':'' @ a, f @ utf16 '':'' @ b]
   \<and> (fileIndex < length fileInfos \<longrightarrow>
        handleSheetsChange fileIndex newSheets fileInfos =
          Some (fileInfos[fileIndex := (fileInfos ! fileIndex)\<lparr>selectedSheets := newSheets\<rparr>],
                buildTokenSet file_id selectedSheets
                  (fileInfos[fileIndex := (fileInfos ! fileIndex)\<lparr>selectedSheets := newSheets\<rparr>])))"
proof -
  have eq: "\<And>fid sel (fs :: 'c list). recompute_ids fid sel fs = buildTokenSet fid sel fs"
    using foldl_push_file [of _ _ "[]"] by (simp add: recompute_ids_def)
  have eq': "\<And>fs. recompute_ids file_id selectedSheets fs = buildTokenSet file_id selectedSheets fs"
    using foldl_push_file [of file_id selectedSheets "[]"] by (simp add: recompute_ids_def)
  show ?thesis
    by (simp add: eq eq' handleSheetsChange_def Let_def) (simp add: buildTokenSet_def)
qed

text \<open>
  The hypothesis of C4 at the three sample files: selecting the sheets T and S of the
  second file gives the tokens of the three files in file order.
\<close>

theorem recompute_ids_tokens_witness:
  "(1::nat) < length sample_files
   \<and> map_option snd (handleSheetsChange 1 [utf16 ''T'', utf16 ''S''] sample_files) =
       Some [utf16 ''f0'', utf16 ''f1:T'', utf16 ''f1:S'', utf16 ''f2:A'', utf16 ''f2:B'']"
proof -
  have l: "(1::nat) < length sample_files" by (simp add: sample_files_def)
  have "handleSheetsChange 1 [utf16 ''T'', utf16 ''S''] sample_files =
      Some (sample_files[1 := (sample_files ! 1)\<lparr>selectedSheets := [utf16 ''T'', utf16 ''S'']\<rparr>],
            buildTokenSet file_id selectedSheets
              (sample_files[1 := (sample_files ! 1)\<lparr>selectedSheets := [utf16 ''T'', utf16 ''S'']\<rparr>]))"
    using recompute_ids_tokens [of file_id selectedSheets "[]" "[]" "[]" "[]" "[]" "[]" "[]" 1
        sample_files "[utf16 ''T'', utf16 ''S'']"] l
    by blast
  then show ?thesis
    using l by (simp add: sample_files_def buildTokenSet_def utf16_def)
qed


subsection \<open>The transcript during a turn\<close>

lemma trim_Nil_iff: "trim s = [] \<longleftrightarrow> (\<forall>c\<in>set s. is_ws c)"
proof
  assume "trim s = []"
  then have "\<forall>c\<in>set (dropWhile is_ws s). is_ws c"
    by (simp add: trim_def)
  then have "dropWhile is_ws s = []"
    using hd_dropWhile [of is_ws s] hd_in_set [of "dropWhile is_ws s"] by blast
  then show "\<forall>c\<in>set s. is_ws c"
    by simp
next
  assume "\<forall>c\<in>set s. is_ws c"
  then have "dropWhile is_ws s = []" by simp
  then show "trim s = []" by (simp add: trim_def del: dropWhile_eq_Nil_conv)
qed

lemma generation_failed_not_blank: "trim (generation_failed @ e) \<noteq> []"
  by (simp add: trim_Nil_iff generation_failed_def is_ws_def)

lemma invoke_shape:
  "invoke failed aid (sc, msgs) cb =
     (sc @ (case cb of OnChunk c \<Rightarrow> c | _ \<Rightarrow> []),
      butlast msgs @ [case cb of
                        OnChunk c \<Rightarrow> assistant_entry aid (sc @ c) None
                      | OnDone cfg \<Rightarrow> assistant_entry aid sc cfg
                      | OnError e \<Rightarrow> assistant_entry aid (failed @ e) None])"
  by (cases cb) simp_all

lemma foldl_invoke_fst:
  "fst (foldl (invoke failed aid) (sc, msgs) cbs) = sc @ chunks_text cbs"
proof (induction cbs arbitrary: sc msgs)
  case Nil
  show ?case by (simp add: chunks_text_def)
next
  case (Cons cb cbs)
  show ?case
    using Cons.IH by (simp add: invoke_shape chunks_text_def)
qed

lemma foldl_invoke_butlast:
  "msgs \<noteq> [] \<Longrightarrow>
   snd (foldl (invoke failed aid) (sc, msgs) cbs) \<noteq> [] \<and>
   butlast (snd (foldl (invoke failed aid) (sc, msgs) cbs)) = butlast msgs"
proof (induction cbs arbitrary: sc msgs)
  case Nil
  then show ?case by simp
next
  case (Cons cb cbs)
  let ?e = "case cb of
              OnChunk c \<Rightarrow> assistant_entry aid (sc @ c) None
            | OnDone cfg \<Rightarrow> assistant_entry aid sc cfg
            | OnError e \<Rightarrow> assistant_entry aid (failed @ e) None"
  have "butlast msgs @ [?e] \<noteq> []" by simp
  from Cons.IH [OF this] show ?case
    by (simp add: invoke_shape)
qed

lemma foldl_turn_step_callbacks:
  "foldl (turn_step failed aid) s (map Callback cbs) = foldl (invoke failed aid) s cbs"
  by (induction cbs arbitrary: s) simp_all

lemma interleave_no_answer_from:
  "(\<forall>j < Suc (length cbs). answered (k + j) = []) \<Longrightarrow>
   interleave answered k cbs = map Callback cbs"
proof (induction cbs arbitrary: k)
  case Nil
  then show ?case by simp
next
  case (Cons cb cbs)
  from Cons.prems have here: "answered k = []"
    by (metis add.right_neutral zero_less_Suc)
  have "\<forall>j < Suc (length cbs). answered (Suc k + j) = []"
  proof (intro allI impI)
    fix j
    assume "j < Suc (length cbs)"
    then have "Suc j < Suc (length (cb # cbs))" by simp
    with Cons.prems have "answered (k + Suc j) = []" by blast
    then show "answered (Suc k + j) = []" by simp
  qed
  from Cons.IH [OF this] here show ?case by simp
qed

lemma interleave_no_answer:
  "no_answer answered cbs \<Longrightarrow> interleave answered 0 cbs = map Callback cbs"
proof -
  assume "no_answer answered cbs"
  then have "\<forall>j < Suc (length cbs). answered (0 + j) = []"
    by (auto simp: no_answer_def list_all_iff less_Suc_eq)
  then show ?thesis
    by (rule interleave_no_answer_from)
qed

lemma turn_progress_step:
  "turn_progress u a t (events @ [ev]) prev =
     turn_step generation_failed (utf16 ''a-'' @ a) (turn_progress u a t events prev) ev"
  by (simp add: turn_progress_def)

lemma turn_progress_callback_butlast:
  "butlast (snd (turn_progress u a t (events @ [Callback cb]) prev)) =
     butlast (snd (turn_progress u a t events prev))"
proof -
  obtain sc msgs where p: "turn_progress u a t events prev = (sc, msgs)"
    by (cases "turn_progress u a t events prev")
  show ?thesis
    by (simp add: turn_progress_step p invoke_shape)
qed

lemma turn_progress_butlast:
  "butlast (snd (turn_progress u a t (map Callback delivered) prev)) =
     prev @ [user_entry (utf16 ''u-'' @ u) t]"
  using foldl_invoke_butlast [of "turn_start u a t prev" generation_failed "utf16 ''a-'' @ a" "[]" delivered]
  by (simp add: turn_progress_def turn_start_def butlast_append foldl_turn_step_callbacks)

lemma turn_progress_snoc:
  "snd (turn_progress u a t (map Callback (delivered @ [cb])) prev) =
     prev @ [user_entry (utf16 ''u-'' @ u) t,
             case cb of
               OnChunk c \<Rightarrow> assistant_entry (utf16 ''a-'' @ a) (chunks_text delivered @ c) None
             | OnDone cfg \<Rightarrow> assistant_entry (utf16 ''a-'' @ a) (chunks_text delivered) cfg
             | OnError e \<Rightarrow> assistant_entry (utf16 ''a-'' @ a) (generation_failed @ e) None]"
proof -
  obtain sc msgs where p: "turn_progress u a t (map Callback delivered) prev = (sc, msgs)"
    by (cases "turn_progress u a t (map Callback delivered) prev")
  have sc: "sc = chunks_text delivered"
    using foldl_invoke_fst [of generation_failed "utf16 ''a-'' @ a" "[]" "turn_start u a t prev" delivered] p
    by (simp add: turn_progress_def foldl_turn_step_callbacks)
  have bl: "butlast msgs = prev @ [user_entry (utf16 ''u-'' @ u) t]"
    using turn_progress_butlast [of u a t delivered prev] p by simp
  have "turn_progress u a t (map Callback (delivered @ [cb])) prev =
      invoke generation_failed (utf16 ''a-'' @ a) (sc, msgs) cb"
    using p turn_progress_step [of u a t "map Callback delivered" "Callback cb" prev] by simp
  then show ?thesis
    by (simp add: invoke_shape sc bl)
qed

lemma turn_progress_chunks:
  "snd (turn_progress u a t (map Callback (map OnChunk cs)) prev) =
     prev @ [user_entry (utf16 ''u-'' @ u) t, assistant_entry (utf16 ''a-'' @ a) (concat cs) None]"
proof (cases cs rule: rev_cases)
  case Nil
  then show ?thesis by (simp add: turn_progress_def turn_start_def)
next
  case (snoc cs' c)
  have "chunks_text (map OnChunk cs') = concat cs'"
    by (induction cs') (simp_all add: chunks_text_def)
  with snoc show ?thesis
    using turn_progress_snoc [of u a t "map OnChunk cs'" "OnChunk c" prev] by simp
qed

lemma chunks_text_chunks: "chunks_text (map OnChunk cs) = concat cs"
  by (induction cs) (simp_all add: chunks_text_def)

lemma turn_messages_thrown:
  "turn_messages u a t (map Callback cbs) (Some err) prev =
     prev @ [user_entry (utf16 ''u-'' @ u) t,
             assistant_entry (utf16 ''a-'' @ a) (generation_failed @ error_message err) None]"
  by (simp add: turn_messages_def turn_progress_butlast)

lemma turn_messages_returned:
  "turn_messages u a t events None prev = snd (turn_progress u a t events prev)"
  by (simp add: turn_messages_def)

lemma user_entry_not_loading: "\<not> showLoading (user_entry i t)"
  by (simp add: showLoading_def user_entry_def)

lemma showLoading_assistant_entry:
  "showLoading (assistant_entry i t cfg) \<longleftrightarrow> trim t = []"
  by (simp add: showLoading_def assistant_entry_def)


subsection \<open>A second turn while one is in flight\<close>

text \<open>
  Claim C5. \<open>handleSend\<close> called while a turn is in flight returns at its guard: the page
  is left as it was, so no entry is appended or changed and no request is sent. That
  holds for every page whose flag is set, and so for the page at any moment of a first
  turn, whatever has been delivered or appended in that turn so far; it holds on
  SessionPage (flag \<open>isStreaming\<close>) and on GeneratePage (flag \<open>loading\<close>).
\<close>

theorem handleSend_in_flight_noop:
  "(isStreaming st \<longrightarrow> SessionPage_handleSend stream answered sid u a t st = st)
   \<and> SessionPage_handleSend stream answered sid u a t
         (SessionPage_streaming sid' u' a' t' events st0) =
       SessionPage_streaming sid' u' a' t' events st0
   \<and> (g_loading g \<longrightarrow> GeneratePage_handleSend stream u a t g = g)
   \<and> GeneratePage_handleSend stream u a t (GeneratePage_streaming u' a' t' delivered g0) =
       GeneratePage_streaming u' a' t' delivered g0"
  by (simp add: SessionPage_handleSend_def SessionPage_streaming_def
      GeneratePage_handleSend_def GeneratePage_streaming_def GeneratePage_rejects_def)

text \<open>
  The hypotheses of C5 at the sample pages: a second \<open>handleSend\<close> during the first turn,
  after one chunk has arrived, leaves the two entries of the first turn and its one
  request.
\<close>

theorem handleSend_in_flight_noop_witness:
  "isStreaming (SessionPage_streaming (utf16 ''s1'') (utf16 ''1'') (utf16 ''1'') (utf16 ''plot'')
      [Callback (OnChunk (utf16 ''Here''))] sample_page)
   \<and> SessionPage_handleSend (\<lambda>p. ([OnDone None], None)) (\<lambda>k. []) (utf16 ''s1'') (utf16 ''2'')
        (utf16 ''2'') (utf16 ''again'')
        (SessionPage_streaming (utf16 ''s1'') (utf16 ''1'') (utf16 ''1'') (utf16 ''plot'')
           [Callback (OnChunk (utf16 ''Here''))] sample_page) =
      sample_page\<lparr>messages := [user_entry (utf16 ''u-1'') (utf16 ''plot''),
                                assistant_entry (utf16 ''a-1'') (utf16 ''Here'') None],
                   isStreaming := True,
                   requests := [\<lparr>session_id = utf16 ''s1'', message = utf16 ''plot'',
                                 file_ids = [utf16 ''f1:Sheet1'']\<rparr>]\<rparr>
   \<and> g_loading (GeneratePage_streaming (utf16 ''1'') (utf16 ''1'') (utf16 ''plot'') []
        sample_generate_page)
   \<and> length (g_messages (GeneratePage_handleSend (\<lambda>p. ([OnDone None], None)) (utf16 ''2'')
        (utf16 ''2'') (utf16 ''again'')
        (GeneratePage_streaming (utf16 ''1'') (utf16 ''1'') (utf16 ''plot'') []
           sample_generate_page))) = 2"
proof -
  let ?s = "SessionPage_streaming (utf16 ''s1'') (utf16 ''1'') (utf16 ''1'') (utf16 ''plot'')
      [Callback (OnChunk (utf16 ''Here''))] sample_page"
  let ?g = "GeneratePage_streaming (utf16 ''1'') (utf16 ''1'') (utf16 ''plot'') []
        sample_generate_page"
  note T = handleSend_in_flight_noop [of ?s "\<lambda>p. ([OnDone None], None)" "\<lambda>k. []" "utf16 ''s1''"
      "utf16 ''2''" "utf16 ''2''" "utf16 ''again''" "utf16 ''s1''" "utf16 ''1''" "utf16 ''1''"
      "utf16 ''plot''" "[]" sample_page ?g "[]" sample_generate_page]
  have s: "isStreaming ?s" by (simp add: SessionPage_streaming_def)
  have g: "g_loading ?g" by (simp add: GeneratePage_streaming_def)
  have v: "?s = sample_page\<lparr>messages := [user_entry (utf16 ''u-1'') (utf16 ''plot''),
                                assistant_entry (utf16 ''a-1'') (utf16 ''Here'') None],
                   isStreaming := True,
                   requests := [\<lparr>session_id = utf16 ''s1'', message = utf16 ''plot'',
                                 file_ids = [utf16 ''f1:Sheet1'']\<rparr>]\<rparr>"
    by (simp add: SessionPage_streaming_def turn_progress_def turn_start_def sample_page_def
        SessionPage_payload_def utf16_def)
  have l: "length (g_messages ?g) = 2"
    by (simp add: GeneratePage_streaming_def turn_progress_def turn_start_def
        sample_generate_page_def)
  from T s have "SessionPage_handleSend (\<lambda>p. ([OnDone None], None)) (\<lambda>k. []) (utf16 ''s1'')
      (utf16 ''2'') (utf16 ''2'') (utf16 ''again'') ?s = ?s" by blast
  moreover from T g have "GeneratePage_handleSend (\<lambda>p. ([OnDone None], None)) (utf16 ''2'')
      (utf16 ''2'') (utf16 ''again'') ?g = ?g" by blast
  ultimately show ?thesis using s g v l by simp
qed


subsection \<open>The entry that is being filled\<close>

text \<open>
  Claim C3, as amended. An entry counts as pending when it is drawn as loading
  (\<open>showLoading\<close>), the only mark the source has. Whatever else is appended meanwhile, a
  callback replaces the last entry only and leaves every earlier entry as it was. From
  a transcript with no pending entry, throughout a turn of \<open>handleSend\<close> during which no
  answer to an earlier sheet selection arrives: the entries before the last one are the
  old transcript and the user entry, unchanged, and none of them is pending, so at most
  one entry is pending and it is the last; chunks only extend the text of the last
  entry. After the chunks and one terminal event no entry is pending if the event is an
  error, or is a completion and the gathered text is not blank; after a completion with
  a blank text the last entry is still pending.
\<close>

theorem pending_entry_invariant:
  assumes "filter showLoading (messages st) = []"
    and "sessionDetail st \<noteq> None \<and> \<not> loading st \<and> \<not> isStreaming st"
    and "no_answer answered (fst (stream (SessionPage_payload sid t st)))"
  shows "butlast (messages (SessionPage_streaming sid u a t (events @ [Callback cb]) st)) =
           butlast (messages (SessionPage_streaming sid u a t events st))
       \<and> butlast (messages (SessionPage_streaming sid u a t (map Callback delivered) st)) =
           messages st @ [user_entry (utf16 ''u-'' @ u) t]
       \<and> filter showLoading
            (butlast (messages (SessionPage_streaming sid u a t (map Callback delivered) st))) = []
       \<and> messages (SessionPage_streaming sid u a t (map Callback (map OnChunk cs)) st) =
           messages st @ [user_entry (utf16 ''u-'' @ u) t,
                          assistant_entry (utf16 ''a-'' @ a) (concat cs) None]
       \<and> (stream (SessionPage_payload sid t st) = (map OnChunk cs @ [OnError e], None) \<longrightarrow>
            messages (SessionPage_handleSend stream answered sid u a t st) =
              messages st @ [user_entry (utf16 ''u-'' @ u) t,
                             assistant_entry (utf16 ''a-'' @ a) (generation_failed @ e) None]
            \<and> filter showLoading (messages (SessionPage_handleSend stream answered sid u a t st)) = [])
       \<and> (stream (SessionPage_payload sid t st) = (map OnChunk cs @ [OnDone cfg], None) \<longrightarrow>
            messages (SessionPage_handleSend stream answered sid u a t st) =
              messages st @ [user_entry (utf16 ''u-'' @ u) t,
                             assistant_entry (utf16 ''a-'' @ a) (concat cs) cfg]
            \<and> filter showLoading (messages (SessionPage_handleSend stream answered sid u a t st)) =
                (if trim (concat cs) = [] then [assistant_entry (utf16 ''a-'' @ a) (concat cs) cfg]
                 else []))"
proof -
  let ?out = "stream (SessionPage_payload sid t st)"
  have old: "filter showLoading (messages st) = []"
    by (rule assms(1))
  have quiet: "interleave answered 0 (fst ?out) = map Callback (fst ?out)"
    using assms(3) by (rule interleave_no_answer)
  have g: "butlast (messages (SessionPage_streaming sid u a t (events @ [Callback cb]) st)) =
      butlast (messages (SessionPage_streaming sid u a t events st))"
    by (simp add: SessionPage_streaming_def turn_progress_callback_butlast)
  have b: "butlast (messages (SessionPage_streaming sid u a t (map Callback delivered) st)) =
      messages st @ [user_entry (utf16 ''u-'' @ u) t]"
    by (simp add: SessionPage_streaming_def turn_progress_butlast)
  have c: "messages (SessionPage_streaming sid u a t (map Callback (map OnChunk cs)) st) =
      messages st @ [user_entry (utf16 ''u-'' @ u) t,
                     assistant_entry (utf16 ''a-'' @ a) (concat cs) None]"
    by (simp add: SessionPage_streaming_def turn_progress_chunks del: map_map)
  have e: "messages (SessionPage_handleSend stream answered sid u a t st) =
        messages st @ [user_entry (utf16 ''u-'' @ u) t,
                       assistant_entry (utf16 ''a-'' @ a) (generation_failed @ e) None]"
    if h: "?out = (map OnChunk cs @ [OnError e], None)"
  proof -
    from quiet h have "interleave answered 0 (map OnChunk cs @ [OnError e]) =
        map Callback (map OnChunk cs @ [OnError e])"
      by simp
    with h assms(2) show ?thesis
      using turn_progress_snoc [of u a t "map OnChunk cs" "OnError e" "messages st"]
      by (simp add: SessionPage_handleSend_def Let_def turn_messages_returned)
  qed
  have d: "messages (SessionPage_handleSend stream answered sid u a t st) =
        messages st @ [user_entry (utf16 ''u-'' @ u) t,
                       assistant_entry (utf16 ''a-'' @ a) (concat cs) cfg]"
    if h: "?out = (map OnChunk cs @ [OnDone cfg], None)"
  proof -
    from quiet h have "interleave answered 0 (map OnChunk cs @ [OnDone cfg]) =
        map Callback (map OnChunk cs @ [OnDone cfg])"
      by simp
    with h assms(2) show ?thesis
      using turn_progress_snoc [of u a t "map OnChunk cs" "OnDone cfg" "messages st"]
      by (simp add: SessionPage_handleSend_def Let_def turn_messages_returned chunks_text_chunks)
  qed
  show ?thesis
  proof (intro conjI impI)
    show "butlast (messages (SessionPage_streaming sid u a t (events @ [Callback cb]) st)) =
        butlast (messages (SessionPage_streaming sid u a t events st))"
      by (rule g)
    show "butlast (messages (SessionPage_streaming sid u a t (map Callback delivered) st)) =
        messages st @ [user_entry (utf16 ''u-'' @ u) t]"
      by (rule b)
    show "filter showLoading
        (butlast (messages (SessionPage_streaming sid u a t (map Callback delivered) st))) = []"
      by (simp add: b old user_entry_not_loading)
    show "messages (SessionPage_streaming sid u a t (map Callback (map OnChunk cs)) st) =
        messages st @ [user_entry (utf16 ''u-'' @ u) t,
                       assistant_entry (utf16 ''a-'' @ a) (concat cs) None]"
      by (rule c)
  next
    assume h: "stream (SessionPage_payload sid t st) = (map OnChunk cs @ [OnError e], None)"
    show "messages (SessionPage_handleSend stream answered sid u a t st) =
        messages st @ [user_entry (utf16 ''u-'' @ u) t,
                       assistant_entry (utf16 ''a-'' @ a) (generation_failed @ e) None]"
      by (rule e [OF h])
    show "filter showLoading (messages (SessionPage_handleSend stream answered sid u a t st)) = []"
      by (simp add: e [OF h] old user_entry_not_loading showLoading_assistant_entry
          generation_failed_not_blank)
  next
    assume h: "stream (SessionPage_payload sid t st) = (map OnChunk cs @ [OnDone cfg], None)"
    show "messages (SessionPage_handleSend stream answered sid u a t st) =
        messages st @ [user_entry (utf16 ''u-'' @ u) t,
                       assistant_entry (utf16 ''a-'' @ a) (concat cs) cfg]"
      by (rule d [OF h])
    show "filter showLoading (messages (SessionPage_handleSend stream answered sid u a t st)) =
        (if trim (concat cs) = [] then [assistant_entry (utf16 ''a-'' @ a) (concat cs) cfg]
         else [])"
      by (simp add: d [OF h] old user_entry_not_loading showLoading_assistant_entry)
  qed
qed

text \<open>
  The claim as it was stated fails: a turn whose stream delivers no chunk and then the
  completion (a reply that is a chart only) ends with its assistant entry still drawn as
  loading, and so does a turn whose only chunk is a newline. In the turn after such a
  one two entries are pending, and the first of them is not the last entry. And when the
  answer to an earlier sheet selection arrives before the first chunk, the chunk
  replaces the notice: the empty assistant entry is pending and is not the last entry,
  and it is still pending after the error event that ends the turn.
\<close>

theorem pending_after_done_counterexample:
  "filter showLoading
     (messages (SessionPage_handleSend (\<lambda>p. ([OnDone None], None)) (\<lambda>k. [])
        (utf16 ''s1'') (utf16 ''1'') (utf16 ''1'') (utf16 ''plot totals'') sample_page)) =
     [assistant_entry (utf16 ''a-1'') [] None]
   \<and> filter showLoading
     (messages (SessionPage_handleSend (\<lambda>p. ([OnChunk [newline], OnDone None], None)) (\<lambda>k. [])
        (utf16 ''s1'') (utf16 ''1'') (utf16 ''1'') (utf16 ''plot totals'') sample_page)) =
     [assistant_entry (utf16 ''a-1'') [newline] None]
   \<and> map msg_id (filter showLoading
     (messages (SessionPage_streaming (utf16 ''s1'') (utf16 ''2'') (utf16 ''2'') (utf16 ''again'') []
        (SessionPage_handleSend (\<lambda>p. ([OnDone None], None)) (\<lambda>k. [])
           (utf16 ''s1'') (utf16 ''1'') (utf16 ''1'') (utf16 ''plot totals'') sample_page)))) =
     [utf16 ''a-1'', utf16 ''a-2'']
   \<and> map showLoading
     (messages (SessionPage_streaming (utf16 ''s1'') (utf16 ''1'') (utf16 ''1'') (utf16 ''plot totals'')
        [Answered sample_answer, Callback (OnChunk (utf16 ''Here''))] sample_page)) =
     [False, True, False]
   \<and> map msg_id
     (messages (SessionPage_streaming (utf16 ''s1'') (utf16 ''1'') (utf16 ''1'') (utf16 ''plot totals'')
        [Answered sample_answer, Callback (OnChunk (utf16 ''Here''))] sample_page)) =
     [utf16 ''u-1'', utf16 ''a-1'', utf16 ''a-1'']
   \<and> filter showLoading
     (messages (SessionPage_handleSend
        (\<lambda>p. ([OnChunk (utf16 ''Here''), OnError (utf16 ''boom'')], None)) sample_answered
        (utf16 ''s1'') (utf16 ''1'') (utf16 ''1'') (utf16 ''plot totals'') sample_page)) =
     [assistant_entry (utf16 ''a-1'') [] None]"
  by (simp add: SessionPage_handleSend_def SessionPage_streaming_def sample_page_def
      turn_messages_def turn_progress_def sample_answer_def sample_answered_def
      sheet_change_entry_def
      turn_start_def showLoading_def user_entry_def assistant_entry_def trim_def is_ws_def
      newline_def utf16_def generation_failed_def)

text \<open>
  The hypotheses of the amended C3 at the sample page: with no answer arriving, two
  chunks and a completion leave no pending entry; two chunks and an error leave none
  either.
\<close>

theorem pending_entry_invariant_witness:
  "filter showLoading (messages sample_page) = []
   \<and> sessionDetail sample_page \<noteq> None \<and> \<not> loading sample_page \<and> \<not> isStreaming sample_page
   \<and> no_answer (\<lambda>k. []) (map OnChunk [utf16 ''Here'', utf16 '' it is''] @ [OnDone None])
   \<and> no_answer (\<lambda>k. []) (map OnChunk [utf16 ''Here'', utf16 '' it is''] @ [OnError (utf16 ''boom'')])
   \<and> filter showLoading (messages (SessionPage_handleSend
        (\<lambda>p. (map OnChunk [utf16 ''Here'', utf16 '' it is''] @ [OnDone None], None)) (\<lambda>k. [])
        (utf16 ''s1'') (utf16 ''1'') (utf16 ''1'') (utf16 ''plot totals'') sample_page)) = []
   \<and> map content (messages (SessionPage_handleSend
        (\<lambda>p. (map OnChunk [utf16 ''Here'', utf16 '' it is''] @ [OnDone None], None)) (\<lambda>k. [])
        (utf16 ''s1'') (utf16 ''1'') (utf16 ''1'') (utf16 ''plot totals'') sample_page)) =
       [utf16 ''plot totals'', utf16 ''Here it is'']
   \<and> filter showLoading (messages (SessionPage_handleSend
        (\<lambda>p. (map OnChunk [utf16 ''Here'', utf16 '' it is''] @ [OnError (utf16 ''boom'')], None))
        (\<lambda>k. [])
        (utf16 ''s1'') (utf16 ''1'') (utf16 ''1'') (utf16 ''plot totals'') sample_page)) = []"
proof -
  have h1: "filter showLoading (messages sample_page) = []"
    by (simp add: sample_page_def)
  have h2: "sessionDetail sample_page \<noteq> None \<and> \<not> loading sample_page \<and> \<not> isStreaming sample_page"
    by (simp add: sample_page_def)
  have q1: "no_answer (\<lambda>k. []) (map OnChunk [utf16 ''Here'', utf16 '' it is''] @ [OnDone None])"
    by (simp add: no_answer_def list_all_iff)
  have q2: "no_answer (\<lambda>k. [])
      (map OnChunk [utf16 ''Here'', utf16 '' it is''] @ [OnError (utf16 ''boom'')])"
    by (simp add: no_answer_def list_all_iff)
  have nb: "trim (concat [utf16 ''Here'', utf16 '' it is'']) \<noteq> []"
    by (simp add: trim_def is_ws_def utf16_def)
  have q1': "no_answer (\<lambda>k. [])
      (fst ((\<lambda>p. (map OnChunk [utf16 ''Here'', utf16 '' it is''] @ [OnDone None], None))
         (SessionPage_payload (utf16 ''s1'') (utf16 ''plot totals'') sample_page)))"
    using q1 by simp
  have q2': "no_answer (\<lambda>k. [])
      (fst ((\<lambda>p. (map OnChunk [utf16 ''Here'', utf16 '' it is''] @ [OnError (utf16 ''boom'')], None))
         (SessionPage_payload (utf16 ''s1'') (utf16 ''plot totals'') sample_page)))"
    using q2 by simp
  note D = pending_entry_invariant [OF h1 h2 q1',
      where u = "utf16 ''1''" and a = "utf16 ''1''" and events = "[]" and cb = "OnDone None"
        and delivered = "[]" and cs = "[utf16 ''Here'', utf16 '' it is'']" and e = "[]"
        and cfg = None]
  note E = pending_entry_invariant [OF h1 h2 q2',
      where u = "utf16 ''1''" and a = "utf16 ''1''" and events = "[]" and cb = "OnDone None"
        and delivered = "[]" and cs = "[utf16 ''Here'', utf16 '' it is'']"
        and e = "utf16 ''boom''" and cfg = None]
  let ?done = "SessionPage_handleSend
        (\<lambda>p. (map OnChunk [utf16 ''Here'', utf16 '' it is''] @ [OnDone None], None)) (\<lambda>k. [])
        (utf16 ''s1'') (utf16 ''1'') (utf16 ''1'') (utf16 ''plot totals'') sample_page"
  let ?err = "SessionPage_handleSend
        (\<lambda>p. (map OnChunk [utf16 ''Here'', utf16 '' it is''] @ [OnError (utf16 ''boom'')], None))
        (\<lambda>k. [])
        (utf16 ''s1'') (utf16 ''1'') (utf16 ''1'') (utf16 ''plot totals'') sample_page"
  from D have dm: "messages ?done =
        messages sample_page @ [user_entry (utf16 ''u-'' @ utf16 ''1'') (utf16 ''plot totals''),
          assistant_entry (utf16 ''a-'' @ utf16 ''1'') (concat [utf16 ''Here'', utf16 '' it is'']) None]"
    and df: "filter showLoading (messages ?done) =
        (if trim (concat [utf16 ''Here'', utf16 '' it is'']) = []
         then [assistant_entry (utf16 ''a-'' @ utf16 ''1'') (concat [utf16 ''Here'', utf16 '' it is'']) None]
         else [])"
    by blast+
  from df nb have d1: "filter showLoading (messages ?done) = []"
    by (simp only: if_False)
  have d2: "map content (messages ?done) = [utf16 ''plot totals'', utf16 ''Here it is'']"
    by (simp only: dm) (simp add: sample_page_def user_entry_def assistant_entry_def utf16_def)
  from E have e1: "filter showLoading (messages ?err) = []"
    by blast
  from h1 h2 q1 q2 d1 d2 e1 show ?thesis by blast
qed


subsection \<open>A turn that fails\<close>

lemma failure_text_cases:
  "failure_text outcome = Some m \<Longrightarrow>
     (\<exists>cbs err. outcome = (cbs, Some err) \<and> m = error_message err)
     \<or> (\<exists>cbs. outcome = (cbs @ [OnError m], None))"
proof -
  assume a: "failure_text outcome = Some m"
  obtain cbs th where o: "outcome = (cbs, th)" by (cases outcome)
  show ?thesis
  proof (cases th)
    case (Some err)
    with a o show ?thesis by (simp add: failure_text_def)
  next
    case None
    with a o obtain rest where "rev cbs = OnError m # rest"
      by (auto simp: failure_text_def split: list.splits callback.splits)
    then have "cbs = rev rest @ [OnError m]"
      by (simp add: rev_swap [symmetric])
    with o None show ?thesis by blast
  qed
qed

lemma turn_messages_failed:
  assumes "failure_text outcome = Some m"
  shows "turn_messages u a t (map Callback (fst outcome)) (snd outcome) prev =
     prev @ [user_entry (utf16 ''u-'' @ u) t,
             assistant_entry (utf16 ''a-'' @ a) (generation_failed @ m) None]"
  using failure_text_cases [OF assms]
proof (elim disjE exE conjE)
  fix cbs err
  assume "outcome = (cbs, Some err)" "m = error_message err"
  then show ?thesis by (simp add: turn_messages_thrown)
next
  fix cbs
  assume "outcome = (cbs @ [OnError m], None)"
  then show ?thesis
    using turn_progress_snoc [of u a t cbs "OnError m" prev]
    by (simp add: turn_messages_returned del: map_append)
qed

lemma init_generate_failed:
  assumes "failure_text (stream \<lparr>session_id = sid, message = c # cs, file_ids = ids\<rparr>) = Some m"
  shows "content (last (init_generate stream sid (c # cs) ids prev)) = error_colon @ m"
proof -
  let ?o = "stream \<lparr>session_id = sid, message = c # cs, file_ids = ids\<rparr>"
  let ?start = "prev @ [user_entry (utf16 ''m3'') (c # cs), assistant_entry (utf16 ''m4'') [] None]"
  from failure_text_cases [OF assms] show ?thesis
  proof (elim disjE exE conjE)
    fix cbs err
    assume "?o = (cbs, Some err)" "m = error_message err"
    then show ?thesis
      by (simp add: init_generate_def Let_def split_beta assistant_entry_def)
  next
    fix cbs
    assume o: "?o = (cbs @ [OnError m], None)"
    obtain sc msgs where f: "foldl (invoke error_colon (utf16 ''m4'')) ([], ?start) cbs = (sc, msgs)"
      by (cases "foldl (invoke error_colon (utf16 ''m4'')) ([], ?start) cbs")
    from o f show ?thesis
      by (simp add: init_generate_def Let_def assistant_entry_def)
  qed
qed

text \<open>
  Claim C6, as amended. A turn of \<open>handleSend\<close>, on SessionPage or GeneratePage, that ends
  with an error event or with a transport failure (a rejected request, a status that is
  not a success, a response without a body, a read that fails) leaves the old transcript,
  the user entry and one assistant entry, whose text is "generation failed:" followed by
  the message: the same entry on both paths. On SessionPage that is the transcript of a
  turn during which no answer to an earlier sheet selection arrives; on GeneratePage
  none can. The first turn of GeneratePage, in \<open>init\<close>, puts "error:" before the message on
  both of its paths instead.
\<close>

theorem failed_turn_entry:
  "(failure_text (stream (SessionPage_payload sid t st)) = Some m
      \<and> no_answer answered (fst (stream (SessionPage_payload sid t st)))
      \<and> sessionDetail st \<noteq> None \<and> \<not> loading st \<and> \<not> isStreaming st \<longrightarrow>
      messages (SessionPage_handleSend stream answered sid u a t st) =
        messages st @ [user_entry (utf16 ''u-'' @ u) t,
                       assistant_entry (utf16 ''a-'' @ a) (generation_failed @ m) None])
   \<and> (failure_text (stream (GeneratePage_payload t g)) = Some m \<and> \<not> GeneratePage_rejects g \<longrightarrow>
      g_messages (GeneratePage_handleSend stream u a t g) =
        g_messages g @ [user_entry (utf16 ''u-'' @ u) t,
                        assistant_entry (utf16 ''a-'' @ a) (generation_failed @ m) None])
   \<and> failure_text (cbs @ [OnError e], None) = Some e
   \<and> failure_text (sendChatMessageStream p (Rejected e)) = Some e
   \<and> failure_text (sendChatMessageStream p (NotOk detail)) =
        Some (case detail of Some d \<Rightarrow> if d \<noteq> [] then d else send_failed | None \<Rightarrow> send_failed)
   \<and> failure_text (sendChatMessageStream p NoBody) = Some cannot_read_stream
   \<and> failure_text (sendChatMessageStream p (Body chunks (ReadRejected e))) = Some e
   \<and> (failure_text (stream \<lparr>session_id = sid, message = c # cs, file_ids = ids\<rparr>) = Some m \<longrightarrow>
      content (last (init_generate stream sid (c # cs) ids prev)) = error_colon @ m)"
proof (intro conjI impI)
  assume h: "failure_text (stream (SessionPage_payload sid t st)) = Some m
      \<and> no_answer answered (fst (stream (SessionPage_payload sid t st)))
      \<and> sessionDetail st \<noteq> None \<and> \<not> loading st \<and> \<not> isStreaming st"
  then have "interleave answered 0 (fst (stream (SessionPage_payload sid t st))) =
      map Callback (fst (stream (SessionPage_payload sid t st)))"
    by (simp add: interleave_no_answer)
  with h show "messages (SessionPage_handleSend stream answered sid u a t st) =
        messages st @ [user_entry (utf16 ''u-'' @ u) t,
                       assistant_entry (utf16 ''a-'' @ a) (generation_failed @ m) None]"
    by (simp add: SessionPage_handleSend_def Let_def turn_messages_failed)
next
  assume "failure_text (stream (GeneratePage_payload t g)) = Some m \<and> \<not> GeneratePage_rejects g"
  then show "g_messages (GeneratePage_handleSend stream u a t g) =
        g_messages g @ [user_entry (utf16 ''u-'' @ u) t,
                        assistant_entry (utf16 ''a-'' @ a) (generation_failed @ m) None]"
    by (simp add: GeneratePage_handleSend_def Let_def turn_messages_failed)
next
  show "failure_text (cbs @ [OnError e], None) = Some e"
    by (simp add: failure_text_def)
  show "failure_text (sendChatMessageStream p (Rejected e)) = Some e"
    by (simp add: failure_text_def sendChatMessageStream_def error_message_def text_or_def)
  show "failure_text (sendChatMessageStream p (NotOk detail)) =
        Some (case detail of Some d \<Rightarrow> if d \<noteq> [] then d else send_failed | None \<Rightarrow> send_failed)"
    by (simp add: failure_text_def sendChatMessageStream_def error_message_def text_or_def
        split: option.splits list.splits)
  show "failure_text (sendChatMessageStream p NoBody) = Some cannot_read_stream"
    by (simp add: failure_text_def sendChatMessageStream_def error_message_def text_or_def)
  show "failure_text (sendChatMessageStream p (Body chunks (ReadRejected e))) = Some e"
    by (simp add: failure_text_def sendChatMessageStream_def error_message_def text_or_def)
next
  assume "failure_text (stream \<lparr>session_id = sid, message = c # cs, file_ids = ids\<rparr>) = Some m"
  then show "content (last (init_generate stream sid (c # cs) ids prev)) = error_colon @ m"
    by (rule init_generate_failed)
qed

text \<open>
  The claim as it was stated fails: the same error event ends a turn of \<open>handleSend\<close> with
  a text that begins "generation failed:" and the first turn of GeneratePage with a text
  that does not; the two texts differ from their first character on. And on SessionPage,
  when the answer to an earlier sheet selection arrives before the error event, the
  failed turn ends with two assistant entries of its own, the empty one and the failure.
\<close>

theorem failed_prefix_counterexample:
  "content (last (messages (SessionPage_handleSend (\<lambda>p. ([OnError (utf16 ''boom'')], None)) (\<lambda>k. [])
      (utf16 ''s1'') (utf16 ''1'') (utf16 ''1'') (utf16 ''plot'') sample_page))) =
     generation_failed @ utf16 ''boom''
   \<and> content (last (init_generate (\<lambda>p. ([OnError (utf16 ''boom'')], None))
      (utf16 ''s1'') (utf16 ''plot'') [utf16 ''f1''] [])) = error_colon @ utf16 ''boom''
   \<and> \<not> prefix generation_failed (error_colon @ utf16 ''boom'')
   \<and> take 1 (generation_failed @ utf16 ''boom'') \<noteq> take 1 (error_colon @ utf16 ''boom'')
   \<and> messages (SessionPage_handleSend (\<lambda>p. ([OnError (utf16 ''boom'')], None)) sample_answered
      (utf16 ''s1'') (utf16 ''1'') (utf16 ''1'') (utf16 ''plot'') sample_page) =
     [user_entry (utf16 ''u-1'') (utf16 ''plot''),
      assistant_entry (utf16 ''a-1'') [] None,
      assistant_entry (utf16 ''a-1'') (generation_failed @ utf16 ''boom'') None]"
  by (simp add: SessionPage_handleSend_def sample_page_def turn_messages_def turn_progress_def
      turn_start_def init_generate_def user_entry_def assistant_entry_def
      sample_answered_def sample_answer_def
      generation_failed_def error_colon_def utf16_def)

text \<open>
  The hypotheses of the amended C6 at the sample pages: a status that is not a success
  and an error event after a chunk on SessionPage, a response without a body on
  GeneratePage, and a rejected request in the first turn.
\<close>

theorem failed_turn_entry_witness:
  "messages (SessionPage_handleSend
      (\<lambda>p. sendChatMessageStream sample_parse (NotOk None)) (\<lambda>k. [])
      (utf16 ''s1'') (utf16 ''1'') (utf16 ''1'') (utf16 ''plot'') sample_page) =
     [user_entry (utf16 ''u-1'') (utf16 ''plot''),
      assistant_entry (utf16 ''a-1'') (generation_failed @ send_failed) None]
   \<and> messages (SessionPage_handleSend
      (\<lambda>p. ([OnChunk (utf16 ''Here'')] @ [OnError (utf16 ''boom'')], None)) (\<lambda>k. [])
      (utf16 ''s1'') (utf16 ''1'') (utf16 ''1'') (utf16 ''plot'') sample_page) =
     [user_entry (utf16 ''u-1'') (utf16 ''plot''),
      assistant_entry (utf16 ''a-1'') (generation_failed @ utf16 ''boom'') None]
   \<and> g_messages (GeneratePage_handleSend
      (\<lambda>p. sendChatMessageStream sample_parse NoBody)
      (utf16 ''1'') (utf16 ''1'') (utf16 ''plot'') sample_generate_page) =
     [user_entry (utf16 ''u-1'') (utf16 ''plot''),
      assistant_entry (utf16 ''a-1'') (generation_failed @ cannot_read_stream) None]
   \<and> content (last (init_generate
      (\<lambda>p. sendChatMessageStream sample_parse (Rejected (utf16 ''boom'')))
      (utf16 ''s1'') (utf16 ''plot'') [utf16 ''f1''] [])) = error_colon @ utf16 ''boom''"
proof -
  have acc: "sessionDetail sample_page \<noteq> None \<and> \<not> loading sample_page \<and> \<not> isStreaming sample_page"
    "messages sample_page = []"
    by (simp_all add: sample_page_def)
  have quiet: "\<And>cbs. no_answer (\<lambda>k. []) cbs"
    by (simp add: no_answer_def list_all_iff)
  have gacc: "\<not> GeneratePage_rejects sample_generate_page" "g_messages sample_generate_page = []"
    by (simp_all add: GeneratePage_rejects_def sample_generate_page_def utf16_def)
  have ids: "utf16 ''u-'' @ utf16 ''1'' = utf16 ''u-1''" "utf16 ''a-'' @ utf16 ''1'' = utf16 ''a-1''"
    by (simp_all add: utf16_def)
  have plot: "utf16 ''plot'' = 0x70 # utf16 ''lot''"
    by (simp add: utf16_def)
  note A = failed_turn_entry [where stream = "\<lambda>p. sendChatMessageStream sample_parse (NotOk None)"
      and answered = "\<lambda>k. []"
      and sid = "utf16 ''s1''" and t = "utf16 ''plot''" and st = sample_page and m = "send_failed"
      and u = "utf16 ''1''" and a = "utf16 ''1''" and g = sample_generate_page
      and cbs = "[]" and e = "[]" and p = sample_parse and detail = None and chunks = "[]" and c = "0x70"
      and cs = "utf16 ''lot''" and ids = "[]" and prev = "[]"]
  note B = failed_turn_entry [where stream = "\<lambda>p. ([OnChunk (utf16 ''Here'')] @ [OnError (utf16 ''boom'')], None)"
      and answered = "\<lambda>k. []"
      and sid = "utf16 ''s1''" and t = "utf16 ''plot''" and st = sample_page and m = "utf16 ''boom''"
      and u = "utf16 ''1''" and a = "utf16 ''1''" and g = sample_generate_page
      and cbs = "[OnChunk (utf16 ''Here'')]" and e = "utf16 ''boom''" and p = sample_parse and detail = None and chunks = "[]" and c = "0x70"
      and cs = "utf16 ''lot''" and ids = "[]" and prev = "[]"]
  note C = failed_turn_entry [where stream = "\<lambda>p. sendChatMessageStream sample_parse NoBody"
      and answered = "\<lambda>k. []"
      and sid = "utf16 ''s1''" and t = "utf16 ''plot''" and st = sample_page and m = "cannot_read_stream"
      and u = "utf16 ''1''" and a = "utf16 ''1''" and g = sample_generate_page
      and cbs = "[]" and e = "[]" and p = sample_parse and detail = None and chunks = "[]" and c = "0x70"
      and cs = "utf16 ''lot''" and ids = "[]" and prev = "[]"]
  note D = failed_turn_entry [where stream = "\<lambda>p. sendChatMessageStream sample_parse (Rejected (utf16 ''boom''))"
      and answered = "\<lambda>k. []"
      and sid = "utf16 ''s1''" and t = "utf16 ''plot''" and st = sample_page and m = "utf16 ''boom''"
      and u = "utf16 ''1''" and a = "utf16 ''1''" and g = sample_generate_page
      and cbs = "[]" and e = "utf16 ''boom''" and p = sample_parse and detail = None and chunks = "[]" and c = "0x70"
      and cs = "utf16 ''lot''" and ids = "[utf16 ''f1'']" and prev = "[]"]
  from A acc quiet have a: "messages (SessionPage_handleSend
      (\<lambda>p. sendChatMessageStream sample_parse (NotOk None)) (\<lambda>k. [])
      (utf16 ''s1'') (utf16 ''1'') (utf16 ''1'') (utf16 ''plot'') sample_page) =
     [user_entry (utf16 ''u-1'') (utf16 ''plot''),
      assistant_entry (utf16 ''a-1'') (generation_failed @ send_failed) None]"
    by (simp add: ids)
  from B acc quiet have b: "messages (SessionPage_handleSend
      (\<lambda>p. ([OnChunk (utf16 ''Here'')] @ [OnError (utf16 ''boom'')], None)) (\<lambda>k. [])
      (utf16 ''s1'') (utf16 ''1'') (utf16 ''1'') (utf16 ''plot'') sample_page) =
     [user_entry (utf16 ''u-1'') (utf16 ''plot''),
      assistant_entry (utf16 ''a-1'') (generation_failed @ utf16 ''boom'') None]"
    by (simp add: ids)
  from C gacc have c: "g_messages (GeneratePage_handleSend
      (\<lambda>p. sendChatMessageStream sample_parse NoBody)
      (utf16 ''1'') (utf16 ''1'') (utf16 ''plot'') sample_generate_page) =
     [user_entry (utf16 ''u-1'') (utf16 ''plot''),
      assistant_entry (utf16 ''a-1'') (generation_failed @ cannot_read_stream) None]"
    by (simp add: ids)
  from D have d: "content (last (init_generate
      (\<lambda>p. sendChatMessageStream sample_parse (Rejected (utf16 ''boom'')))
      (utf16 ''s1'') (utf16 ''plot'') [utf16 ''f1''] [])) = error_colon @ utf16 ''boom''"
    by (simp add: plot [symmetric])
  from a b c d show ?thesis by blast
qed


subsection \<open>Configuration normalisation\<close>
















subsection \<open>The chart registry\<close>

lemma upsert_keys: "map fst (upsert k v (upsert k v' m)) = map fst (upsert k v' m)"
  by (induction m) auto

lemma upsert_twice: "upsert k v (upsert k v' m) = upsert k v m"
  by (induction m) auto

lemma delete_upsert:
  "filter (\<lambda>kv. fst kv \<noteq> k) (upsert k v m) = filter (\<lambda>kv. fst kv \<noteq> k) m"
  by (induction m) auto

lemma delete_absent: "k \<notin> fst ` set m \<Longrightarrow> filter (\<lambda>kv. fst kv \<noteq> k) m = m"
  by (induction m) auto

lemma upsert_absent: "k \<notin> fst ` set m \<Longrightarrow> upsert k v m = m @ [(k, v)]"
  by (induction m) auto

lemma set_after_delete:
  "handleInstanceReady mid i c (handleInstanceDestroy mid m) =
     Map_delete mid m @
       [(mid, \<lparr>messageId = mid, chart_instance = i,
               title = js_or (member (map_of c (utf16 ''title'')) (utf16 ''text''))
                         (JStr chart_title_default)\<rparr>)]"
proof -
  have "mid \<notin> fst ` set (filter (\<lambda>kv. fst kv \<noteq> mid) m)" by auto
  then show ?thesis
    by (simp add: handleInstanceReady_def handleInstanceDestroy_def Map_set_def Map_delete_def
        upsert_absent)
qed

lemma delete_set:
  "handleInstanceDestroy mid (handleInstanceReady mid i c m) = handleInstanceDestroy mid m"
  by (simp add: handleInstanceReady_def handleInstanceDestroy_def Map_set_def Map_delete_def
      delete_upsert)

lemma map_of_delete: "map_of (Map_delete mid m) mid = None"
  by (simp add: Map_delete_def map_of_eq_None_iff image_iff)

lemma MessageChart_mount_state:
  "MessageChart_mount ToNumber parseInt mid c v =
     (Some (inits v),
      v\<lparr>chartInstances := handleInstanceReady mid (inits v) c (chartInstances v),
        inits := Suc (inits v),
        applied := applied v @ [(inits v, safeConfig_of ToNumber parseInt c)]\<rparr>)"
  by (simp add: MessageChart_mount_def MessageChart_effect_def)

lemma MessageChart_rerender_state:
  "MessageChart_rerender ToNumber parseInt mid c (Some h, v) =
     (Some (inits v),
      v\<lparr>chartInstances := Map_delete mid (chartInstances v) @
           [(mid, \<lparr>messageId = mid, chart_instance = inits v,
                   title = js_or (member (map_of c (utf16 ''title'')) (utf16 ''text''))
                             (JStr chart_title_default)\<rparr>)],
        inits := Suc (inits v),
        disposed := disposed v @ [h],
        applied := applied v @ [(inits v, safeConfig_of ToNumber parseInt c)]\<rparr>)"
  by (simp add: MessageChart_rerender_def MessageChart_cleanup_def MessageChart_effect_def
      set_after_delete)

lemma filter_notin_append:
  "filter (\<lambda>x. x \<notin> set (D @ E)) xs = filter (\<lambda>x. x \<notin> set E) (filter (\<lambda>x. x \<notin> set D) xs)"
  by (induction xs) auto

lemma live_fields:
  "inits v' = n \<Longrightarrow> disposed v' = D \<Longrightarrow> live v' = filter (\<lambda>x. x \<notin> set D) [0..<n]"
  by (simp add: live_def)

lemma live_below: "x \<in> set (live v) \<Longrightarrow> x < inits v"
  by (simp add: live_def)

lemma live_made:
  assumes "sound v"
  shows "filter (\<lambda>x. x \<notin> set (disposed v)) ([0..<inits v] @ [inits v..<inits v + k]) =
     live v @ [inits v..<inits v + k]"
proof -
  have "\<forall>x \<in> set [inits v..<inits v + k]. x \<notin> set (disposed v)"
  proof
    fix x
    assume "x \<in> set [inits v..<inits v + k]"
    then have "inits v \<le> x" by simp
    moreover have "\<forall>h \<in> set (disposed v). h < inits v"
      using assms by (simp add: sound_def list_all_iff)
    ultimately show "x \<notin> set (disposed v)" by auto
  qed
  then have "filter (\<lambda>x. x \<notin> set (disposed v)) [inits v..<inits v + k] = [inits v..<inits v + k]"
    by (simp only: filter_True)
  then show ?thesis
    by (simp only: filter_append live_def)
qed

lemma live_made_one:
  "sound v \<Longrightarrow> filter (\<lambda>x. x \<notin> set (disposed v)) [0..<Suc (inits v)] = live v @ [inits v]"
  using live_made [of v 1] by simp

lemma live_made_two:
  assumes "sound v"
  shows "filter (\<lambda>x. x \<notin> set (disposed v)) [0..<Suc (Suc (inits v))] =
     live v @ [inits v, Suc (inits v)]"
proof -
  have e1: "[inits v..<inits v + 2] = [inits v, Suc (inits v)]"
    by (simp add: upt_rec)
  have e2: "[0..<inits v] @ [inits v, Suc (inits v)] = [0..<Suc (Suc (inits v))]"
    by simp
  have "filter (\<lambda>x. x \<notin> set (disposed v)) ([0..<inits v] @ [inits v..<inits v + 2]) =
      live v @ [inits v..<inits v + 2]"
    using assms by (rule live_made)
  then have "filter (\<lambda>x. x \<notin> set (disposed v)) ([0..<inits v] @ [inits v, Suc (inits v)]) =
      live v @ [inits v, Suc (inits v)]"
    by (simp only: e1)
  then show ?thesis
    by (simp only: e2)
qed

lemma live_keeps:
  "(\<forall>x \<in> set E. inits v \<le> x) \<Longrightarrow> filter (\<lambda>x. x \<notin> set E) (live v) = live v"
proof -
  assume a: "\<forall>x \<in> set E. inits v \<le> x"
  have "\<forall>x \<in> set (live v). x \<notin> set E"
  proof
    fix x
    assume "x \<in> set (live v)"
    then have "x < inits v" by (rule live_below)
    with a show "x \<notin> set E" by auto
  qed
  then show ?thesis by (simp only: filter_True)
qed

lemma mount_rerender_state:
  "MessageChart_rerender ToNumber parseInt mid c2 (MessageChart_mount ToNumber parseInt mid c1 v) =
     (Some (Suc (inits v)),
      v\<lparr>chartInstances := Map_delete mid (chartInstances v) @
           [(mid, \<lparr>messageId = mid, chart_instance = Suc (inits v),
                   title = js_or (member (map_of c2 (utf16 ''title'')) (utf16 ''text''))
                             (JStr chart_title_default)\<rparr>)],
        inits := Suc (Suc (inits v)),
        disposed := disposed v @ [inits v],
        applied := applied v @ [(inits v, safeConfig_of ToNumber parseInt c1),
                                (Suc (inits v), safeConfig_of ToNumber parseInt c2)]\<rparr>)"
proof -
  have "Map_delete mid (handleInstanceReady mid (inits v) c1 (chartInstances v)) =
      Map_delete mid (chartInstances v)"
    using delete_set [of mid "inits v" c1 "chartInstances v"]
    by (simp only: handleInstanceDestroy_def)
  then show ?thesis
    by (simp add: MessageChart_mount_state MessageChart_rerender_state)
qed

lemma mount_rerender_unmount_state:
  "MessageChart_unmount mid
     (MessageChart_rerender ToNumber parseInt mid c2 (MessageChart_mount ToNumber parseInt mid c1 v)) =
     (None,
      v\<lparr>chartInstances := Map_delete mid (chartInstances v),
        inits := Suc (Suc (inits v)),
        disposed := disposed v @ [inits v, Suc (inits v)],
        applied := applied v @ [(inits v, safeConfig_of ToNumber parseInt c1),
                                (Suc (inits v), safeConfig_of ToNumber parseInt c2)]\<rparr>)"
proof -
  have "Map_delete mid (Map_delete mid (chartInstances v) @ [(mid, r)]) =
      Map_delete mid (chartInstances v)" for r :: ChartInstanceRef
    by (simp add: Map_delete_def)
  then show ?thesis
    by (simp add: mount_rerender_state MessageChart_unmount_def MessageChart_cleanup_def
        handleInstanceDestroy_def)
qed

lemma map_of_registered: "map_of (Map_delete mid m @ [(mid, r)]) mid = Some r"
  by (simp add: map_add_def map_of_delete)

lemma live_rerendered:
  assumes "sound v" and "inits v' = Suc (Suc (inits v))" and "disposed v' = disposed v @ [inits v]"
  shows "live v' = live v @ [Suc (inits v)]"
proof -
  have "live v' = filter (\<lambda>x. x \<notin> set (disposed v @ [inits v])) [0..<Suc (Suc (inits v))]"
    using assms(2,3) by (rule live_fields)
  also have "\<dots> = filter (\<lambda>x. x \<notin> set [inits v]) (live v @ [inits v, Suc (inits v)])"
    by (simp only: filter_notin_append live_made_two [OF assms(1)])
  also have "\<dots> = filter (\<lambda>x. x \<notin> set [inits v]) (live v) @ [Suc (inits v)]"
    by simp
  also have "filter (\<lambda>x. x \<notin> set [inits v]) (live v) = live v"
    by (rule live_keeps) simp
  finally show ?thesis .
qed

lemma live_unmounted:
  assumes "sound v" and "inits v' = Suc (Suc (inits v))"
    and "disposed v' = disposed v @ [inits v, Suc (inits v)]"
  shows "live v' = live v"
proof -
  have "live v' =
      filter (\<lambda>x. x \<notin> set (disposed v @ [inits v, Suc (inits v)])) [0..<Suc (Suc (inits v))]"
    using assms(2,3) by (rule live_fields)
  also have "\<dots> = filter (\<lambda>x. x \<notin> set [inits v, Suc (inits v)])
      (live v @ [inits v, Suc (inits v)])"
    by (simp only: filter_notin_append live_made_two [OF assms(1)])
  also have "\<dots> = filter (\<lambda>x. x \<notin> set [inits v, Suc (inits v)]) (live v)"
    by simp
  also have "\<dots> = live v"
    by (rule live_keeps) simp
  finally show ?thesis .
qed

lemma sound_rerendered:
  assumes "sound v" and "inits v' = Suc (Suc (inits v))" and "disposed v' = disposed v @ [inits v]"
  shows "sound v'"
proof -
  have "\<forall>x \<in> set (disposed v). x < inits v"
    using assms(1) by (simp add: sound_def list_all_iff)
  then have "\<forall>x \<in> set (disposed v). x < Suc (Suc (inits v))"
    by (meson less_Suc_eq)
  then show ?thesis
    by (simp add: sound_def list_all_iff assms(2,3))
qed

text \<open>
  Claim C7. What the code does when a chart is registered a second time under its
  entry id. \<open>Map.set\<close> by itself replaces the record where it stands. But the second
  registration is made by the first effect of \<open>MessageChart\<close> running again, and before it
  the cleanup has run: the instance of the first registration is disposed and its record
  deleted, then \<open>echarts.init\<close> is called a second time and the new instance is registered
  at the end of the map. In a view in which only instances that were made are disposed,
  a chart that mounts and renders again thus leaves one live instance of its own, the
  second one; the record under its id holds that second instance; the first
  configuration was applied to the first instance and the second to the second. When the
  chart then leaves the page no instance of its own is live and no record is under its
  id; a second cleanup changes nothing, nor does unregistering an id that has no record.
\<close>

theorem chart_rerender_second_instance:
  "MessageChart_rerender ToNumber parseInt mid c2 (Some h, v) =
     (Some (inits v),
      v\<lparr>chartInstances := Map_delete mid (chartInstances v) @
           [(mid, \<lparr>messageId = mid, chart_instance = inits v,
                   title = js_or (member (map_of c2 (utf16 ''title'')) (utf16 ''text''))
                             (JStr chart_title_default)\<rparr>)],
        inits := Suc (inits v),
        disposed := disposed v @ [h],
        applied := applied v @ [(inits v, safeConfig_of ToNumber parseInt c2)]\<rparr>)
   \<and> (sound v \<longrightarrow>
        fst (MessageChart_mount ToNumber parseInt mid c1 v) = Some (inits v)
        \<and> live (snd (MessageChart_mount ToNumber parseInt mid c1 v)) = live v @ [inits v]
        \<and> inits (snd (MessageChart_rerender ToNumber parseInt mid c2
              (MessageChart_mount ToNumber parseInt mid c1 v))) = inits v + 2
        \<and> disposed (snd (MessageChart_rerender ToNumber parseInt mid c2
              (MessageChart_mount ToNumber parseInt mid c1 v))) = disposed v @ [inits v]
        \<and> live (snd (MessageChart_rerender ToNumber parseInt mid c2
              (MessageChart_mount ToNumber parseInt mid c1 v))) = live v @ [Suc (inits v)]
        \<and> map_of (chartInstances (snd (MessageChart_rerender ToNumber parseInt mid c2
              (MessageChart_mount ToNumber parseInt mid c1 v)))) mid =
            Some \<lparr>messageId = mid, chart_instance = Suc (inits v),
                  title = js_or (member (map_of c2 (utf16 ''title'')) (utf16 ''text''))
                            (JStr chart_title_default)\<rparr>
        \<and> applied (snd (MessageChart_rerender ToNumber parseInt mid c2
              (MessageChart_mount ToNumber parseInt mid c1 v))) =
            applied v @ [(inits v, safeConfig_of ToNumber parseInt c1),
                         (Suc (inits v), safeConfig_of ToNumber parseInt c2)]
        \<and> sound (snd (MessageChart_rerender ToNumber parseInt mid c2
              (MessageChart_mount ToNumber parseInt mid c1 v)))
        \<and> live (snd (MessageChart_unmount mid (MessageChart_rerender ToNumber parseInt mid c2
              (MessageChart_mount ToNumber parseInt mid c1 v)))) = live v
        \<and> map_of (chartInstances (snd (MessageChart_unmount mid
              (MessageChart_rerender ToNumber parseInt mid c2
                 (MessageChart_mount ToNumber parseInt mid c1 v))))) mid = None)
   \<and> MessageChart_unmount mid (MessageChart_unmount mid s) = MessageChart_unmount mid s
   \<and> handleInstanceReady mid i2 c2 (handleInstanceReady mid i1 c1 m) =
       handleInstanceReady mid i2 c2 m
   \<and> map fst (handleInstanceReady mid i2 c2 (handleInstanceReady mid i1 c1 m)) =
       map fst (handleInstanceReady mid i1 c1 m)
   \<and> (mid \<notin> fst ` set m \<longrightarrow> handleInstanceDestroy mid m = m)"
proof (intro conjI impI)
  show "MessageChart_rerender ToNumber parseInt mid c2 (Some h, v) =
     (Some (inits v),
      v\<lparr>chartInstances := Map_delete mid (chartInstances v) @
           [(mid, \<lparr>messageId = mid, chart_instance = inits v,
                   title = js_or (member (map_of c2 (utf16 ''title'')) (utf16 ''text''))
                             (JStr chart_title_default)\<rparr>)],
        inits := Suc (inits v),
        disposed := disposed v @ [h],
        applied := applied v @ [(inits v, safeConfig_of ToNumber parseInt c2)]\<rparr>)"
    by (rule MessageChart_rerender_state)
  show "MessageChart_unmount mid (MessageChart_unmount mid s) = MessageChart_unmount mid s"
    by (cases s)
      (simp add: MessageChart_unmount_def MessageChart_cleanup_def handleInstanceDestroy_def
        Map_delete_def)
  show "handleInstanceReady mid i2 c2 (handleInstanceReady mid i1 c1 m) =
       handleInstanceReady mid i2 c2 m"
    by (simp add: handleInstanceReady_def Map_set_def upsert_twice)
  show "map fst (handleInstanceReady mid i2 c2 (handleInstanceReady mid i1 c1 m)) =
       map fst (handleInstanceReady mid i1 c1 m)"
    by (simp add: handleInstanceReady_def Map_set_def upsert_keys)
next
  assume "mid \<notin> fst ` set m"
  then show "handleInstanceDestroy mid m = m"
    by (simp add: handleInstanceDestroy_def Map_delete_def delete_absent)
next
  assume s: "sound v"
  let ?n = "inits v"
  let ?r = "\<lparr>messageId = mid, chart_instance = Suc ?n,
             title = js_or (member (map_of c2 (utf16 ''title'')) (utf16 ''text''))
                       (JStr chart_title_default)\<rparr>"
  let ?v2 = "v\<lparr>chartInstances := Map_delete mid (chartInstances v) @ [(mid, ?r)],
               inits := Suc (Suc ?n),
               disposed := disposed v @ [?n],
               applied := applied v @ [(?n, safeConfig_of ToNumber parseInt c1),
                                       (Suc ?n, safeConfig_of ToNumber parseInt c2)]\<rparr>"
  let ?v3 = "v\<lparr>chartInstances := Map_delete mid (chartInstances v),
               inits := Suc (Suc ?n),
               disposed := disposed v @ [?n, Suc ?n],
               applied := applied v @ [(?n, safeConfig_of ToNumber parseInt c1),
                                       (Suc ?n, safeConfig_of ToNumber parseInt c2)]\<rparr>"
  have two: "MessageChart_rerender ToNumber parseInt mid c2
      (MessageChart_mount ToNumber parseInt mid c1 v) = (Some (Suc ?n), ?v2)"
    by (rule mount_rerender_state)
  have three: "MessageChart_unmount mid (MessageChart_rerender ToNumber parseInt mid c2
      (MessageChart_mount ToNumber parseInt mid c1 v)) = (None, ?v3)"
    by (rule mount_rerender_unmount_state)
  show "fst (MessageChart_mount ToNumber parseInt mid c1 v) = Some ?n"
    by (simp add: MessageChart_mount_state)
  have "live (snd (MessageChart_mount ToNumber parseInt mid c1 v)) =
      filter (\<lambda>x. x \<notin> set (disposed v)) [0..<Suc ?n]"
    by (rule live_fields) (simp_all add: MessageChart_mount_state)
  then show "live (snd (MessageChart_mount ToNumber parseInt mid c1 v)) = live v @ [?n]"
    by (simp only: live_made_one [OF s])
  show "inits (snd (MessageChart_rerender ToNumber parseInt mid c2
      (MessageChart_mount ToNumber parseInt mid c1 v))) = ?n + 2"
    by (simp add: two)
  show "disposed (snd (MessageChart_rerender ToNumber parseInt mid c2
      (MessageChart_mount ToNumber parseInt mid c1 v))) = disposed v @ [?n]"
    by (simp add: two)
  have "live ?v2 = live v @ [Suc ?n]"
    by (rule live_rerendered [OF s]) simp_all
  then show "live (snd (MessageChart_rerender ToNumber parseInt mid c2
      (MessageChart_mount ToNumber parseInt mid c1 v))) = live v @ [Suc ?n]"
    by (simp only: two snd_conv)
  show "map_of (chartInstances (snd (MessageChart_rerender ToNumber parseInt mid c2
      (MessageChart_mount ToNumber parseInt mid c1 v)))) mid = Some ?r"
    by (simp add: two map_of_registered del: map_of_append)
  show "applied (snd (MessageChart_rerender ToNumber parseInt mid c2
      (MessageChart_mount ToNumber parseInt mid c1 v))) =
    applied v @ [(?n, safeConfig_of ToNumber parseInt c1),
                 (Suc ?n, safeConfig_of ToNumber parseInt c2)]"
    by (simp add: two)
  have "sound ?v2"
    by (rule sound_rerendered [OF s]) simp_all
  then show "sound (snd (MessageChart_rerender ToNumber parseInt mid c2
      (MessageChart_mount ToNumber parseInt mid c1 v)))"
    by (simp only: two snd_conv)
  have "live ?v3 = live v"
    by (rule live_unmounted [OF s]) simp_all
  then show "live (snd (MessageChart_unmount mid (MessageChart_rerender ToNumber parseInt mid c2
      (MessageChart_mount ToNumber parseInt mid c1 v)))) = live v"
    by (simp only: three snd_conv)
  show "map_of (chartInstances (snd (MessageChart_unmount mid
      (MessageChart_rerender ToNumber parseInt mid c2
         (MessageChart_mount ToNumber parseInt mid c1 v))))) mid = None"
    using map_of_delete [of mid "chartInstances v"]
    by (simp add: three)
qed


text \<open>
  The run at the samples, in a view with nothing in it: the chart of the entry m1 mounts
  with the bar configuration and renders again with the radar configuration.
  \<open>echarts.init\<close> has been called twice, instance 0 is disposed, instance 1 is the live
  one and the one in the record; when the chart of m2 had mounted in between, the record
  of m1 has moved behind that of m2. After the chart leaves the page nothing is live and
  the map is empty.
\<close>

theorem chart_rerender_second_instance_witness:
  "sound empty_view
   \<and> inits (snd (MessageChart_rerender sample_ToNumber sample_parseInt (utf16 ''m1'') sample_radar
        (MessageChart_mount sample_ToNumber sample_parseInt (utf16 ''m1'') sample_bar
           empty_view))) = 2
   \<and> disposed (snd (MessageChart_rerender sample_ToNumber sample_parseInt (utf16 ''m1'') sample_radar
        (MessageChart_mount sample_ToNumber sample_parseInt (utf16 ''m1'') sample_bar
           empty_view))) = [0]
   \<and> live (snd (MessageChart_rerender sample_ToNumber sample_parseInt (utf16 ''m1'') sample_radar
        (MessageChart_mount sample_ToNumber sample_parseInt (utf16 ''m1'') sample_bar
           empty_view))) = [1]
   \<and> map_option chart_instance
        (map_of (chartInstances (snd (MessageChart_rerender sample_ToNumber sample_parseInt
           (utf16 ''m1'') sample_radar
           (MessageChart_mount sample_ToNumber sample_parseInt (utf16 ''m1'') sample_bar
              empty_view)))) (utf16 ''m1'')) = Some 1
   \<and> map fst (chartInstances (snd (MessageChart_rerender sample_ToNumber sample_parseInt
        (utf16 ''m1'') sample_radar
        (Some 0, snd (MessageChart_mount sample_ToNumber sample_parseInt (utf16 ''m2'') sample_radar
           (snd (MessageChart_mount sample_ToNumber sample_parseInt (utf16 ''m1'') sample_bar
              empty_view))))))) = [utf16 ''m2'', utf16 ''m1'']
   \<and> live (snd (MessageChart_unmount (utf16 ''m1'')
        (MessageChart_rerender sample_ToNumber sample_parseInt (utf16 ''m1'') sample_radar
           (MessageChart_mount sample_ToNumber sample_parseInt (utf16 ''m1'') sample_bar
              empty_view)))) = []
   \<and> map_of (chartInstances (snd (MessageChart_unmount (utf16 ''m1'')
        (MessageChart_rerender sample_ToNumber sample_parseInt (utf16 ''m1'') sample_radar
           (MessageChart_mount sample_ToNumber sample_parseInt (utf16 ''m1'') sample_bar
              empty_view))))) (utf16 ''m1'') = None"
proof -
  let ?two = "MessageChart_rerender sample_ToNumber sample_parseInt (utf16 ''m1'') sample_radar
      (MessageChart_mount sample_ToNumber sample_parseInt (utf16 ''m1'') sample_bar empty_view)"
  let ?v = "snd (MessageChart_mount sample_ToNumber sample_parseInt (utf16 ''m2'') sample_radar
      (snd (MessageChart_mount sample_ToNumber sample_parseInt (utf16 ''m1'') sample_bar
         empty_view)))"
  note T = chart_rerender_second_instance [where ToNumber = sample_ToNumber
      and parseInt = sample_parseInt and mid = "utf16 ''m1''" and ?c1.0 = sample_bar
      and ?c2.0 = sample_radar and v = empty_view and h = 0 and s = "(None, empty_view)"
      and m = "[]" and ?i1.0 = 0 and ?i2.0 = 1]
  note U = chart_rerender_second_instance [where ToNumber = sample_ToNumber
      and parseInt = sample_parseInt and mid = "utf16 ''m1''" and ?c1.0 = sample_bar
      and ?c2.0 = sample_radar and v = ?v and h = 0 and s = "(None, empty_view)"
      and m = "[]" and ?i1.0 = 0 and ?i2.0 = 1]
  have s: "sound empty_view"
    by (simp add: sound_def empty_view_def)
  have l: "live empty_view = []" and n: "inits empty_view = 0" and d: "disposed empty_view = []"
    by (simp_all add: live_def empty_view_def)
  from T s have "inits (snd ?two) = inits empty_view + 2"
    by blast
  then have a: "inits (snd ?two) = 2"
    by (simp add: n)
  from T s have "disposed (snd ?two) = disposed empty_view @ [inits empty_view]"
    by blast
  then have b: "disposed (snd ?two) = [0]"
    by (simp add: n d)
  from T s have "live (snd ?two) = live empty_view @ [Suc (inits empty_view)]"
    by blast
  then have c: "live (snd ?two) = [1]"
    by (simp add: n l)
  from T s have "map_of (chartInstances (snd ?two)) (utf16 ''m1'') =
      Some \<lparr>messageId = utf16 ''m1'', chart_instance = Suc (inits empty_view),
            title = js_or (member (map_of sample_radar (utf16 ''title'')) (utf16 ''text''))
                      (JStr chart_title_default)\<rparr>"
    by blast
  then have e: "map_option chart_instance (map_of (chartInstances (snd ?two)) (utf16 ''m1'')) =
      Some 1"
    by (simp add: n)
  from U have "MessageChart_rerender sample_ToNumber sample_parseInt (utf16 ''m1'') sample_radar
      (Some 0, ?v) =
     (Some (inits ?v),
      ?v\<lparr>chartInstances := Map_delete (utf16 ''m1'') (chartInstances ?v) @
           [(utf16 ''m1'', \<lparr>messageId = utf16 ''m1'', chart_instance = inits ?v,
                   title = js_or (member (map_of sample_radar (utf16 ''title'')) (utf16 ''text''))
                             (JStr chart_title_default)\<rparr>)],
        inits := Suc (inits ?v),
        disposed := disposed ?v @ [0],
        applied := applied ?v @ [(inits ?v, safeConfig_of sample_ToNumber sample_parseInt sample_radar)]\<rparr>)"
    by blast
  then have f: "map fst (chartInstances (snd (MessageChart_rerender sample_ToNumber sample_parseInt
      (utf16 ''m1'') sample_radar (Some 0, ?v)))) = [utf16 ''m2'', utf16 ''m1'']"
    by (simp add: MessageChart_mount_state empty_view_def handleInstanceReady_def Map_set_def
        Map_delete_def utf16_def)
  from T s have "live (snd (MessageChart_unmount (utf16 ''m1'') ?two)) = live empty_view"
    by blast
  then have g: "live (snd (MessageChart_unmount (utf16 ''m1'') ?two)) = []"
    by (simp only: l)
  from T s have h: "map_of (chartInstances (snd (MessageChart_unmount (utf16 ''m1'') ?two)))
      (utf16 ''m1'') = None"
    by blast
  from s a b c e f g h show ?thesis by blast
qed


subsection \<open>Export of all charts\<close>

lemma schedule_zip:
  "schedule i items = zip (map (\<lambda>j. j * 300) [i..<i + length items]) items"
proof (induction items arbitrary: i)
  case Nil
  show ?case by simp
next
  case (Cons item rest)
  have "[i..<i + length (item # rest)] = i # [Suc i..<Suc i + length rest]"
    by (simp add: upt_rec)
  with Cons.IH [of "Suc i"] show ?case by simp
qed

text \<open>
  Claim C8. With \<open>n > 0\<close> records in the map, \<open>exportAllCharts\<close> raises no alert and sets
  exactly \<open>n\<close> timers, the \<open>i\<close>-th with the delay \<open>300 i\<close> milliseconds and the \<open>i\<close>-th
  record of the map in its insertion order, so three records get the delays 0, 300 and
  600; with an empty map it raises the alert and sets no timer.
\<close>

theorem export_all_staggered:
  "exportAllCharts [] = (Some nothing_to_export, [])
   \<and> (m \<noteq> [] \<longrightarrow>
        exportAllCharts m = (None, zip (map (\<lambda>i. 300 * i) [0..<length m]) (Map_values m))
        \<and> length (snd (exportAllCharts m)) = length m
        \<and> map fst (snd (exportAllCharts m)) = map (\<lambda>i. 300 * i) [0..<length m]
        \<and> map snd (snd (exportAllCharts m)) = Map_values m)
   \<and> map fst (snd (exportAllCharts [kv1, kv2, kv3])) = [0, 300, 600]
   \<and> (k1 \<noteq> k2 \<and> k1 \<noteq> k3 \<and> k2 \<noteq> k3 \<longrightarrow>
        map (messageId \<circ> snd) (snd (exportAllCharts
          (handleInstanceReady k3 i3 c3 (handleInstanceReady k2 i2 c2
             (handleInstanceReady k1 i1 c1 []))))) = [k1, k2, k3])"
proof (intro conjI impI)
  show "exportAllCharts [] = (Some nothing_to_export, [])"
    by (simp add: exportAllCharts_def Map_values_def)
  show "map fst (snd (exportAllCharts [kv1, kv2, kv3])) = [0, 300, 600]"
    by (simp add: exportAllCharts_def Map_values_def)
next
  assume ne: "m \<noteq> []"
  have mults: "(\<lambda>j. j * 300) = (\<lambda>i. 300 * i :: nat)"
    by (simp add: fun_eq_iff)
  from ne show e: "exportAllCharts m =
      (None, zip (map (\<lambda>i. 300 * i) [0..<length m]) (Map_values m))"
    using schedule_zip [of 0 "Map_values m"]
    by (simp add: exportAllCharts_def Map_values_def mults)
  show "length (snd (exportAllCharts m)) = length m"
    by (simp add: e Map_values_def)
  show "map fst (snd (exportAllCharts m)) = map (\<lambda>i. 300 * i) [0..<length m]"
    by (simp add: e Map_values_def)
  show "map snd (snd (exportAllCharts m)) = Map_values m"
    by (simp add: e Map_values_def)
next
  assume "k1 \<noteq> k2 \<and> k1 \<noteq> k3 \<and> k2 \<noteq> k3"
  then show "map (messageId \<circ> snd) (snd (exportAllCharts
          (handleInstanceReady k3 i3 c3 (handleInstanceReady k2 i2 c2
             (handleInstanceReady k1 i1 c1 []))))) = [k1, k2, k3]"
    by (simp add: exportAllCharts_def Map_values_def handleInstanceReady_def Map_set_def)
qed

text \<open>
  The hypotheses of C8 at the three sample charts, the first of which was registered a
  second time after the others: three timers at 0, 300 and 600 milliseconds, in the order
  of first registration.
\<close>

theorem export_all_staggered_witness:
  "sample_charts \<noteq> []
   \<and> map fst (snd (exportAllCharts sample_charts)) = [0, 300, 600]
   \<and> map (messageId \<circ> snd) (snd (exportAllCharts sample_charts)) =
       [utf16 ''m1'', utf16 ''m2'', utf16 ''m3'']
   \<and> fst (exportAllCharts sample_charts) = None
   \<and> utf16 ''m1'' \<noteq> utf16 ''m2'' \<and> utf16 ''m1'' \<noteq> utf16 ''m3'' \<and> utf16 ''m2'' \<noteq> utf16 ''m3''
   \<and> map (messageId \<circ> snd) (snd (exportAllCharts
          (handleInstanceReady (utf16 ''m3'') 2 sample_bar (handleInstanceReady (utf16 ''m2'') 1 sample_radar
             (handleInstanceReady (utf16 ''m1'') 0 sample_bar []))))) =
       [utf16 ''m1'', utf16 ''m2'', utf16 ''m3'']"
proof -
  note T = export_all_staggered [of sample_charts "hd sample_charts" "hd sample_charts" "hd sample_charts"
      "utf16 ''m1''" "utf16 ''m2''" "utf16 ''m3''" 2 sample_bar 1 sample_radar 0 sample_bar]
  have ks: "map fst sample_charts = [utf16 ''m1'', utf16 ''m2'', utf16 ''m3'']"
    by (simp add: sample_charts_def handleInstanceReady_def Map_set_def utf16_def)
  then have ne: "sample_charts \<noteq> []" by auto
  have len: "length sample_charts = 3"
    using ks by (metis length_map length_Cons list.size(3) numeral_3_eq_3)
  have ids: "map (messageId \<circ> snd) sample_charts = [utf16 ''m1'', utf16 ''m2'', utf16 ''m3'']"
    by (simp add: sample_charts_def handleInstanceReady_def Map_set_def utf16_def)
  have kd: "utf16 ''m1'' \<noteq> utf16 ''m2'' \<and> utf16 ''m1'' \<noteq> utf16 ''m3'' \<and> utf16 ''m2'' \<noteq> utf16 ''m3''"
    by (simp add: utf16_def)
  from T ne have e: "exportAllCharts sample_charts =
      (None, zip (map (\<lambda>i. 300 * i) [0..<length sample_charts]) (Map_values sample_charts))"
    and f: "map fst (snd (exportAllCharts sample_charts)) = map (\<lambda>i. 300 * i) [0..<length sample_charts]"
    and s: "map snd (snd (exportAllCharts sample_charts)) = Map_values sample_charts"
    by blast+
  from f have a: "map fst (snd (exportAllCharts sample_charts)) = [0, 300, 600]"
    by (simp add: len upt_rec)
  have "map (messageId \<circ> snd) (snd (exportAllCharts sample_charts)) =
      map messageId (map snd (snd (exportAllCharts sample_charts)))"
    by simp
  also have "\<dots> = map (messageId \<circ> snd) sample_charts"
    by (simp only: s Map_values_def) simp
  finally have b: "map (messageId \<circ> snd) (snd (exportAllCharts sample_charts)) =
       [utf16 ''m1'', utf16 ''m2'', utf16 ''m3'']"
    by (simp only: ids)
  from e have c: "fst (exportAllCharts sample_charts) = None" by simp
  from T kd have d: "map (messageId \<circ> snd) (snd (exportAllCharts
          (handleInstanceReady (utf16 ''m3'') 2 sample_bar (handleInstanceReady (utf16 ''m2'') 1 sample_radar
             (handleInstanceReady (utf16 ''m1'') 0 sample_bar []))))) =
       [utf16 ''m1'', utf16 ''m2'', utf16 ''m3'']"
    by blast
  from ne a b c kd d show ?thesis by blast
qed

end
